theory Spec2Isabelle
  imports Main
begin

section \<open>Python values\<close>

text \<open>
  The values that travel through \<^verbatim>\<open>scrapling_executor.py\<close> are what \<^verbatim>\<open>json.load\<close>
  produces: \<^verbatim>\<open>None\<close>, booleans, integers, strings, lists and dicts with string keys.
  JSON numbers with a fraction or an exponent (Python floats) are left out of the model.
  A Python \<^verbatim>\<open>str\<close> is a sequence of code points; it is modelled by a HOL string with one
  \<open>char\<close> per code point, which covers the code points below 256. A dict is an
  association list in insertion order whose keys are distinct.
\<close>

datatype pyval =
    PNone
  | PBool bool
  | PInt int
  | PStr string
  | PList "pyval list"
  | PDict "(string \<times> pyval) list"

type_synonym dict = "(string \<times> pyval) list"

text \<open>
  An exception is identified with its message, the text \<^verbatim>\<open>str(e)\<close>. The exceptions of
  the model are the instances of \<^verbatim>\<open>Exception\<close>, which is what the two handlers of the
  source catch.
\<close>

type_synonym exn = string

text \<open>\<^verbatim>\<open>d.get(k)\<close> and \<^verbatim>\<open>d.get(k, default)\<close>.\<close>

definition dict_get :: "dict \<Rightarrow> string \<Rightarrow> pyval" where
  "dict_get d k = (case map_of d k of None \<Rightarrow> PNone | Some v \<Rightarrow> v)"

definition dict_get_default :: "dict \<Rightarrow> string \<Rightarrow> pyval \<Rightarrow> pyval" where
  "dict_get_default d k dflt = (case map_of d k of None \<Rightarrow> dflt | Some v \<Rightarrow> v)"

text \<open>Truth value testing, as in \<^verbatim>\<open>if timeout\<close> and \<^verbatim>\<open>filename or ...\<close>.\<close>

fun truthy :: "pyval \<Rightarrow> bool" where
  "truthy PNone = False"
| "truthy (PBool b) = b"
| "truthy (PInt n) = (n \<noteq> 0)"
| "truthy (PStr s) = (s \<noteq> [])"
| "truthy (PList xs) = (xs \<noteq> [])"
| "truthy (PDict d) = (d \<noteq> [])"

text \<open>Decimal rendering of an index, as in \<^verbatim>\<open>f'screenshot-{i}.png'\<close>.\<close>

function str_nat :: "nat \<Rightarrow> string" where
  "str_nat n =
     (if n < 10 then [char_of (48 + n)]
      else str_nat (n div 10) @ [char_of (48 + n mod 10)])"
  by pat_completeness auto
termination
  by (relation "measure (\<lambda>n. n)") auto

declare str_nat.simps [simp del]

definition str_int :: "int \<Rightarrow> string" where
  "str_int k = (if k < 0 then CHR ''-'' # str_nat (nat (- k)) else str_nat (nat k))"

text \<open>
  \<^verbatim>\<open>f'{v}'\<close> on a JSON value. The text of a list or of a dict is built from \<^verbatim>\<open>repr\<close>
  of its members, a builtin the source does not define: it is the parameter \<open>rp\<close>.
\<close>

fun py_format :: "(pyval \<Rightarrow> string) \<Rightarrow> pyval \<Rightarrow> string" where
  "py_format rp PNone = ''None''"
| "py_format rp (PBool b) = (if b then ''True'' else ''False'')"
| "py_format rp (PInt k) = str_int k"
| "py_format rp (PStr s) = s"
| "py_format rp (PList xs) = rp (PList xs)"
| "py_format rp (PDict d) = rp (PDict d)"

text \<open>\<^verbatim>\<open>str.strip()\<close>: the white space among the code points below 256.\<close>

definition py_isspace :: "char \<Rightarrow> bool" where
  "py_isspace c =
     (let n = (of_char c :: nat)
      in (9 \<le> n \<and> n \<le> 13) \<or> (28 \<le> n \<and> n \<le> 32) \<or> n = 133 \<or> n = 160)"

definition strip :: "string \<Rightarrow> string" where
  "strip s = rev (dropWhile py_isspace (rev (dropWhile py_isspace s)))"

section \<open>The wrapped browser library\<close>

text \<open>
  Every use the source makes of the \<^verbatim>\<open>page\<close> object and of the locators obtained from
  it: one constructor per method or property, with the arguments passed. \<open>'l\<close> is the
  type of locator handles. The optional argument is \<^verbatim>\<open>**opts\<close>, where
  \<^verbatim>\<open>opts = {'timeout': timeout} if timeout else {}\<close>.
\<close>

datatype 'l libcall =
    Screenshot string
  | Click pyval "pyval option"
  | Fill pyval pyval "pyval option"
  | Type pyval pyval "pyval option"
  | Hover pyval "pyval option"
  | Press pyval pyval "pyval option"
  | SelectOption pyval pyval "pyval option"
  | Check pyval "pyval option"
  | Uncheck pyval "pyval option"
  | WaitForTimeout int
  | WaitForSelector pyval "pyval option"
  | WaitForUrl pyval "pyval option"
  | Locator pyval
  | First 'l
  | InnerText 'l
  | GetAttribute 'l pyval
  | InputValue 'l
  | LocatorAll 'l
  | Evaluate pyval
  | GoBack "pyval option"
  | GoForward "pyval option"
  | Reload "pyval option"
  | ScrollIntoViewIfNeeded 'l
  | Focus pyval "pyval option"
  | Blur 'l
  | DragAndDrop pyval pyval "pyval option"
  | SetInputFiles pyval pyval "pyval option"
  | Url
  | Title

definition timeout_opts :: "pyval \<Rightarrow> pyval option" where
  "timeout_opts timeout = (if truthy timeout then Some timeout else None)"

text \<open>
  The library, the file system and the builtins are not part of the source; they are
  parameters. An operation of the outside reads and changes the world \<open>'p\<close> (the
  browser, the files) and either raises or returns.

  The operations on the page are grouped by what the source does with the value
  returned: nothing (\<open>lib_cmd\<close>), use it as a locator (\<open>lib_loc\<close>), iterate over it
  (\<open>lib_locs\<close>), slice it as a string (\<open>lib_text\<close>), store it as it is (\<open>lib_val\<close>),
  apply \<^verbatim>\<open>str\<close> to it (\<open>lib_eval\<close>, with \<open>str_obj\<close> for \<^verbatim>\<open>str\<close> on such an object).

  \<^verbatim>\<open>StealthyFetcher.fetch\<close> and \<^verbatim>\<open>DynamicFetcher.fetch\<close> take the \<^verbatim>\<open>page_action\<close>
  callback: the library opens the page (\<open>fetch_begin\<close>), calls \<^verbatim>\<open>page_action(page)\<close>
  once, and builds the response (\<open>fetch_end\<close>, which is told the exception that the
  callback raised, if any, and may raise it again or swallow it). \<^verbatim>\<open>Fetcher.get\<close> is
  \<open>fetcher_get\<close>. The imports of the library are taken to succeed.

  \<open>py_repr\<close> is \<^verbatim>\<open>repr\<close> on lists and dicts, \<open>py_int\<close> is \<^verbatim>\<open>int(value)\<close>,
  \<open>path_join d name\<close> is \<^verbatim>\<open>str(Path(d) / name)\<close>, which raises when \<open>name\<close> is not a
  string, \<open>path_error\<close> and \<open>subscript_error\<close> are the messages of the \<^verbatim>\<open>TypeError\<close>
  of \<^verbatim>\<open>Path(v)\<close> and of \<^verbatim>\<open>v['url']\<close> on a value of the wrong type, \<open>mkdir\<close> is
  \<^verbatim>\<open>Path.mkdir(parents=True, exist_ok=True)\<close>, \<open>json_dumps ascii v\<close> is
  \<^verbatim>\<open>json.dumps(v, indent=2, ensure_ascii=ascii)\<close>, \<open>json_loads\<close> is \<^verbatim>\<open>json.loads\<close>,
  \<open>read_stdin\<close> is \<^verbatim>\<open>json.load(sys.stdin)\<close>, \<open>read_file\<close> is \<^verbatim>\<open>open\<close> followed by
  \<^verbatim>\<open>json.load\<close>, and \<open>help_text\<close> is what \<^verbatim>\<open>parser.print_help()\<close> prints.

  \<open>print_stdout text\<close> is \<^verbatim>\<open>print(text)\<close> on \<^verbatim>\<open>sys.stdout\<close>: it raises when the stream does
  not take the text (it cannot encode it, or it is closed), and then nothing is written.
  The \<^verbatim>\<open>print\<close> of the error object to \<^verbatim>\<open>sys.stderr\<close> and the printing of the help are
  taken not to raise: their text is ASCII, and \<^verbatim>\<open>sys.stderr\<close> replaces what it cannot
  encode.
\<close>

datatype fetcher = StealthyFetcher | DynamicFetcher | Fetcher

datatype kwarg = Value pyval | PageAction

type_synonym kwargs = "(string \<times> kwarg) list"

text \<open>
  The response object: \<^verbatim>\<open>response.url\<close> when \<^verbatim>\<open>hasattr(response, 'url')\<close>, and
  \<^verbatim>\<open>response.status\<close>.
\<close>

record response =
  resp_url :: "pyval option"
  resp_status :: pyval

record ('p, 'l, 'v) env =
  lib_cmd :: "'l libcall \<Rightarrow> 'p \<Rightarrow> (exn + unit) \<times> 'p"
  lib_loc :: "'l libcall \<Rightarrow> 'p \<Rightarrow> (exn + 'l) \<times> 'p"
  lib_locs :: "'l libcall \<Rightarrow> 'p \<Rightarrow> (exn + 'l list) \<times> 'p"
  lib_text :: "'l libcall \<Rightarrow> 'p \<Rightarrow> (exn + string) \<times> 'p"
  lib_val :: "'l libcall \<Rightarrow> 'p \<Rightarrow> (exn + pyval) \<times> 'p"
  lib_eval :: "'l libcall \<Rightarrow> 'p \<Rightarrow> (exn + 'v) \<times> 'p"
  str_obj :: "'v \<Rightarrow> string"
  fetch_begin :: "fetcher \<Rightarrow> pyval \<Rightarrow> kwargs \<Rightarrow> 'p \<Rightarrow> (exn + unit) \<times> 'p"
  fetch_end :: "fetcher \<Rightarrow> pyval \<Rightarrow> kwargs \<Rightarrow> exn option \<Rightarrow> 'p \<Rightarrow> (exn + response) \<times> 'p"
  fetcher_get :: "pyval \<Rightarrow> kwargs \<Rightarrow> 'p \<Rightarrow> (exn + response) \<times> 'p"
  mkdir :: "string \<Rightarrow> 'p \<Rightarrow> (exn + unit) \<times> 'p"
  read_stdin :: "'p \<Rightarrow> (exn + pyval) \<times> 'p"
  read_file :: "string \<Rightarrow> 'p \<Rightarrow> (exn + pyval) \<times> 'p"
  py_repr :: "pyval \<Rightarrow> string"
  py_int :: "pyval \<Rightarrow> exn + int"
  path_join :: "string \<Rightarrow> pyval \<Rightarrow> exn + string"
  path_error :: "pyval \<Rightarrow> exn"
  subscript_error :: "pyval \<Rightarrow> exn"
  json_dumps :: "bool \<Rightarrow> pyval \<Rightarrow> string"
  json_loads :: "string \<Rightarrow> exn + pyval"
  print_stdout :: "string \<Rightarrow> 'p \<Rightarrow> (exn + unit) \<times> 'p"
  help_text :: string

text \<open>
  The state threaded through the program: the outside world, the log of the operations
  invoked on the page so far, each with the exception it raised if any, the log of the
  fetches requested from the library, with their arguments, and the list \<^verbatim>\<open>results\<close>
  of the enclosing \<^verbatim>\<open>create_page_action\<close>.
\<close>

record ('p, 'l) state =
  world :: 'p
  trace :: "('l libcall \<times> exn option) list"
  fetches :: "(fetcher \<times> pyval \<times> kwargs) list"
  results :: "dict list"

definition outcome :: "exn + 'a \<Rightarrow> exn option" where
  "outcome r = (case r of Inl e \<Rightarrow> Some e | Inr _ \<Rightarrow> None)"

definition invoke ::
  "('l libcall \<Rightarrow> 'p \<Rightarrow> (exn + 'a) \<times> 'p) \<Rightarrow> 'l libcall \<Rightarrow> ('p, 'l) state
     \<Rightarrow> (exn + 'a) \<times> ('p, 'l) state" where
  "invoke f c s =
     (case f c (world s) of
        (r, w) \<Rightarrow> (r, s\<lparr>world := w, trace := trace s @ [(c, outcome r)]\<rparr>))"

text \<open>An operation of the outside that is not an operation on the page.\<close>

definition effect ::
  "('p \<Rightarrow> (exn + 'a) \<times> 'p) \<Rightarrow> ('p, 'l) state \<Rightarrow> (exn + 'a) \<times> ('p, 'l) state" where
  "effect f s = (case f (world s) of (r, w) \<Rightarrow> (r, s\<lparr>world := w\<rparr>))"

text \<open>Sequencing inside the \<^verbatim>\<open>try\<close> block: an exception skips the rest of the branch.\<close>

definition and_then ::
  "(exn + 'a) \<times> 's \<Rightarrow> ('a \<Rightarrow> 's \<Rightarrow> (exn + 'b) \<times> 's) \<Rightarrow> (exn + 'b) \<times> 's" where
  "and_then m f = (case m of (Inl e, s) \<Rightarrow> (Inl e, s) | (Inr x, s) \<Rightarrow> f x s)"

definition returning :: "(exn + 'a) \<times> 's \<Rightarrow> 'b \<Rightarrow> (exn + 'b) \<times> 's" where
  "returning m r = and_then m (\<lambda>_ s. (Inr r, s))"

section \<open>create_page_action\<close>

definition ok_record :: "nat \<Rightarrow> pyval \<Rightarrow> dict \<Rightarrow> dict" where
  "ok_record i action rest =
     [(''step'', PInt (int i)), (''action'', action), (''status'', PStr ''ok'')] @ rest"

definition error_record :: "nat \<Rightarrow> pyval \<Rightarrow> exn \<Rightarrow> dict" where
  "error_record i action e =
     [(''step'', PInt (int i)), (''action'', action), (''status'', PStr ''error''),
      (''error'', PStr e)]"

text \<open>
  The loop of the \<^verbatim>\<open>list_elements\<close> branch over \<^verbatim>\<open>elements[:50]\<close>, with its own
  \<^verbatim>\<open>try\<close>: a failing \<^verbatim>\<open>inner_text\<close> is recorded as \<^verbatim>\<open>'[no text]'\<close>.
\<close>

fun collect_texts ::
  "('p, 'l, 'v) env \<Rightarrow> 'l list \<Rightarrow> string list \<Rightarrow> ('p, 'l) state
     \<Rightarrow> string list \<times> ('p, 'l) state" where
  "collect_texts env [] texts s = (texts, s)"
| "collect_texts env (el # els) texts s =
     (case invoke (lib_text env) (InnerText el) s of
        (Inr t, s') \<Rightarrow> collect_texts env els (texts @ [strip (take 200 t)]) s'
      | (Inl e, s') \<Rightarrow> collect_texts env els (texts @ [''[no text]'']) s')"

text \<open>The body of the \<^verbatim>\<open>try\<close> block for step \<open>i\<close>: the record to append, or the exception.\<close>

definition try_body ::
  "('p, 'l, 'v) env \<Rightarrow> string \<Rightarrow> nat \<Rightarrow> dict \<Rightarrow> ('p, 'l) state
     \<Rightarrow> (exn + dict) \<times> ('p, 'l) state" where
  "try_body env output_dir i step s =
    (let action = dict_get step ''action'';
         selector = dict_get step ''selector'';
         val = dict_get step ''value'';
         filename = dict_get step ''filename'';
         attribute = dict_get_default step ''attribute'' (PStr ''href'');
         opts = timeout_opts (dict_get step ''timeout'');
         ok = ok_record i action
     in
     if action = PStr ''screenshot'' then
       (case path_join env output_dir
               (if truthy filename then filename
                else PStr (''screenshot-'' @ str_nat i @ ''.png'')) of
          Inl e \<Rightarrow> (Inl e, s)
        | Inr path \<Rightarrow>
            returning (invoke (lib_cmd env) (Screenshot path) s) (ok [(''path'', PStr path)]))
     else if action = PStr ''click'' then
       returning (invoke (lib_cmd env) (Click selector opts) s) (ok [(''selector'', selector)])
     else if action = PStr ''fill'' then
       returning (invoke (lib_cmd env) (Fill selector val opts) s) (ok [(''selector'', selector)])
     else if action = PStr ''type'' then
       returning (invoke (lib_cmd env) (Type selector val opts) s) (ok [(''selector'', selector)])
     else if action = PStr ''hover'' then
       returning (invoke (lib_cmd env) (Hover selector opts) s) (ok [(''selector'', selector)])
     else if action = PStr ''press'' then
       returning (invoke (lib_cmd env) (Press selector val opts) s)
         (ok [(''selector'', selector), (''key'', val)])
     else if action = PStr ''select'' then
       returning (invoke (lib_cmd env) (SelectOption selector val opts) s)
         (ok [(''selector'', selector), (''value'', val)])
     else if action = PStr ''check'' then
       returning (invoke (lib_cmd env) (Check selector opts) s) (ok [(''selector'', selector)])
     else if action = PStr ''uncheck'' then
       returning (invoke (lib_cmd env) (Uncheck selector opts) s) (ok [(''selector'', selector)])
     else if action = PStr ''wait'' then
       (case (if truthy val then py_int env val else Inr 1000) of
          Inl e \<Rightarrow> (Inl e, s)
        | Inr ms \<Rightarrow>
            returning (invoke (lib_cmd env) (WaitForTimeout ms) s) (ok [(''ms'', PInt ms)]))
     else if action = PStr ''wait_selector'' then
       returning (invoke (lib_cmd env) (WaitForSelector selector opts) s)
         (ok [(''selector'', selector)])
     else if action = PStr ''wait_url'' then
       returning (invoke (lib_cmd env) (WaitForUrl val opts) s) (ok [(''url_pattern'', val)])
     else if action = PStr ''get_text'' then
       and_then (invoke (lib_loc env) (Locator selector) s) (\<lambda>loc s1.
       and_then (invoke (lib_loc env) (First loc) s1) (\<lambda>fst_loc s2.
       and_then (invoke (lib_text env) (InnerText fst_loc) s2) (\<lambda>text s3.
         (Inr (ok [(''selector'', selector), (''text'', PStr (take 1000 text))]), s3))))
     else if action = PStr ''get_attribute'' then
       and_then (invoke (lib_loc env) (Locator selector) s) (\<lambda>loc s1.
       and_then (invoke (lib_loc env) (First loc) s1) (\<lambda>fst_loc s2.
       and_then (invoke (lib_val env) (GetAttribute fst_loc attribute) s2) (\<lambda>v s3.
         (Inr (ok [(''selector'', selector), (''attribute'', attribute), (''value'', v)]), s3))))
     else if action = PStr ''get_value'' then
       and_then (invoke (lib_loc env) (Locator selector) s) (\<lambda>loc s1.
       and_then (invoke (lib_loc env) (First loc) s1) (\<lambda>fst_loc s2.
       and_then (invoke (lib_val env) (InputValue fst_loc) s2) (\<lambda>v s3.
         (Inr (ok [(''selector'', selector), (''value'', v)]), s3))))
     else if action = PStr ''list_elements'' then
       and_then (invoke (lib_loc env) (Locator selector) s) (\<lambda>loc s1.
       and_then (invoke (lib_locs env) (LocatorAll loc) s1) (\<lambda>elements s2.
         (case collect_texts env (take 50 elements) [] s2 of
            (texts, s3) \<Rightarrow>
              (Inr (ok [(''selector'', selector), (''count'', PInt (int (length elements))),
                        (''texts'', PList (map PStr texts))]), s3))))
     else if action = PStr ''evaluate'' then
       and_then (invoke (lib_eval env) (Evaluate val) s) (\<lambda>result s1.
         (Inr (ok [(''result'', PStr (take 1000 (str_obj env result)))]), s1))
     else if action = PStr ''go_back'' then
       returning (invoke (lib_cmd env) (GoBack opts) s) (ok [])
     else if action = PStr ''go_forward'' then
       returning (invoke (lib_cmd env) (GoForward opts) s) (ok [])
     else if action = PStr ''reload'' then
       returning (invoke (lib_cmd env) (Reload opts) s) (ok [])
     else if action = PStr ''scroll'' then
       and_then (invoke (lib_loc env) (Locator selector) s) (\<lambda>loc s1.
         returning (invoke (lib_cmd env) (ScrollIntoViewIfNeeded loc) s1)
           (ok [(''selector'', selector)]))
     else if action = PStr ''focus'' then
       returning (invoke (lib_cmd env) (Focus selector opts) s) (ok [(''selector'', selector)])
     else if action = PStr ''blur'' then
       and_then (invoke (lib_loc env) (Locator selector) s) (\<lambda>loc s1.
         returning (invoke (lib_cmd env) (Blur loc) s1) (ok [(''selector'', selector)]))
     else if action = PStr ''drag'' then
       returning (invoke (lib_cmd env) (DragAndDrop selector val opts) s)
         (ok [(''source'', selector), (''target'', val)])
     else if action = PStr ''upload_file'' then
       returning (invoke (lib_cmd env) (SetInputFiles selector val opts) s)
         (ok [(''selector'', selector), (''file'', val)])
     else if action = PStr ''get_url'' then
       and_then (invoke (lib_val env) Url s) (\<lambda>u s1. (Inr (ok [(''url'', u)]), s1))
     else if action = PStr ''get_title'' then
       and_then (invoke (lib_val env) Title s) (\<lambda>t s1. (Inr (ok [(''title'', t)]), s1))
     else
       (Inr (error_record i action (''Unknown action: '' @ py_format (py_repr env) action)), s))"

text \<open>
  One iteration of the loop: the \<^verbatim>\<open>try\<close> block with its handler
  \<^verbatim>\<open>except Exception as e: results.append({..., 'status': 'error', 'error': str(e)})\<close>.
\<close>

definition process_step ::
  "('p, 'l, 'v) env \<Rightarrow> string \<Rightarrow> nat \<Rightarrow> dict \<Rightarrow> ('p, 'l) state \<Rightarrow> ('p, 'l) state" where
  "process_step env output_dir i step s =
     (case try_body env output_dir i step s of
        (Inr r, s') \<Rightarrow> s'\<lparr>results := results s' @ [r]\<rparr>
      | (Inl e, s') \<Rightarrow>
          s'\<lparr>results := results s' @ [error_record i (dict_get step ''action'') e]\<rparr>)"

text \<open>
  \<^verbatim>\<open>for i, step in enumerate(actions)\<close>, from index \<open>i\<close> on. The parameter is declared
  \<^verbatim>\<open>list[dict]\<close>, which Python does not check: on a step that is not a dict,
  \<^verbatim>\<open>step.get\<close> raises outside the \<^verbatim>\<open>try\<close> block and the exception leaves
  \<^verbatim>\<open>page_action\<close>.
\<close>

fun type_name :: "pyval \<Rightarrow> string" where
  "type_name PNone = ''NoneType''"
| "type_name (PBool b) = ''bool''"
| "type_name (PInt k) = ''int''"
| "type_name (PStr s) = ''str''"
| "type_name (PList xs) = ''list''"
| "type_name (PDict d) = ''dict''"

definition quote :: "string \<Rightarrow> string" where
  "quote s = CHR 0x27 # s @ [CHR 0x27]"

definition no_attribute_get :: "pyval \<Rightarrow> exn" where
  "no_attribute_get v = quote (type_name v) @ '' object has no attribute '' @ quote ''get''"

fun page_action_from ::
  "('p, 'l, 'v) env \<Rightarrow> string \<Rightarrow> nat \<Rightarrow> pyval list \<Rightarrow> ('p, 'l) state
     \<Rightarrow> exn option \<times> ('p, 'l) state" where
  "page_action_from env output_dir i [] s = (None, s)"
| "page_action_from env output_dir i (PDict step # steps) s =
     page_action_from env output_dir (Suc i) steps (process_step env output_dir i step s)"
| "page_action_from env output_dir i (v # steps) s = (Some (no_attribute_get v), s)"

text \<open>What \<^verbatim>\<open>enumerate(actions)\<close> iterates over.\<close>

definition py_iter :: "pyval \<Rightarrow> exn + pyval list" where
  "py_iter v =
     (case v of
        PList xs \<Rightarrow> Inr xs
      | PStr cs \<Rightarrow> Inr (map (\<lambda>c. PStr [c]) cs)
      | PDict d \<Rightarrow> Inr (map (\<lambda>kv. PStr (fst kv)) d)
      | _ \<Rightarrow> Inl (quote (type_name v) @ '' object is not iterable''))"

definition page_action ::
  "('p, 'l, 'v) env \<Rightarrow> string \<Rightarrow> pyval \<Rightarrow> ('p, 'l) state \<Rightarrow> exn option \<times> ('p, 'l) state" where
  "page_action env output_dir actions s =
     (case py_iter actions of
        Inl e \<Rightarrow> (Some e, s)
      | Inr steps \<Rightarrow> page_action_from env output_dir 0 steps s)"

text \<open>
  \<^verbatim>\<open>create_page_action\<close> binds a fresh, empty \<^verbatim>\<open>results\<close> list and returns the closure
  \<^verbatim>\<open>page_action\<close> together with \<^verbatim>\<open>lambda: results\<close>.
\<close>

definition create_page_action :: "('p, 'l) state \<Rightarrow> ('p, 'l) state" where
  "create_page_action s = s\<lparr>results := []\<rparr>"

definition get_results :: "('p, 'l) state \<Rightarrow> pyval" where
  "get_results s = PList (map PDict (results s))"

text \<open>An action list, as declared: a list of dicts.\<close>

definition action_list :: "dict list \<Rightarrow> pyval" where
  "action_list steps = PList (map PDict steps)"

section \<open>execute\<close>

text \<open>\<^verbatim>\<open>config['url']\<close>, \<^verbatim>\<open>d[k] = v\<close>, \<^verbatim>\<open>del d[k]\<close> and \<^verbatim>\<open>timeout // 1000\<close>.\<close>

definition subscript :: "('p, 'l, 'v) env \<Rightarrow> pyval \<Rightarrow> string \<Rightarrow> exn + pyval" where
  "subscript env v k =
     (case v of
        PDict d \<Rightarrow> (case map_of d k of None \<Rightarrow> Inl (quote k) | Some x \<Rightarrow> Inr x)
      | _ \<Rightarrow> Inl (subscript_error env v))"

definition dict_set :: "string \<Rightarrow> 'a \<Rightarrow> (string \<times> 'a) list \<Rightarrow> (string \<times> 'a) list" where
  "dict_set k v d =
     (if k \<in> fst ` set d then map (\<lambda>kv. if fst kv = k then (k, v) else kv) d
      else d @ [(k, v)])"

definition dict_del :: "string \<Rightarrow> (string \<times> 'a) list \<Rightarrow> (string \<times> 'a) list" where
  "dict_del k d = filter (\<lambda>kv. fst kv \<noteq> k) d"

definition py_floordiv :: "pyval \<Rightarrow> int \<Rightarrow> exn + pyval" where
  "py_floordiv v k =
     (case v of
        PInt n \<Rightarrow> Inr (PInt (n div k))
      | PBool b \<Rightarrow> Inr (PInt ((if b then 1 else 0) div k))
      | _ \<Rightarrow> Inl (''unsupported operand type(s) for //: '' @ quote (type_name v) @ '' and ''
                 @ quote ''int''))"

definition make_path :: "('p, 'l, 'v) env \<Rightarrow> pyval \<Rightarrow> exn + string" where
  "make_path env v = (case v of PStr d \<Rightarrow> Inr d | _ \<Rightarrow> Inl (path_error env v))"

text \<open>
  \<^verbatim>\<open>StealthyFetcher.fetch(url, **fetch_kwargs)\<close> and
  \<^verbatim>\<open>DynamicFetcher.fetch(url, **fetch_kwargs)\<close>, with the callback run in between.
\<close>

definition browser_fetch ::
  "('p, 'l, 'v) env \<Rightarrow> fetcher \<Rightarrow> pyval \<Rightarrow> kwargs \<Rightarrow> string \<Rightarrow> pyval \<Rightarrow> ('p, 'l) state
     \<Rightarrow> (exn + response) \<times> ('p, 'l) state" where
  "browser_fetch env f url kw output_dir actions s =
     and_then (effect (fetch_begin env f url kw) (s\<lparr>fetches := fetches s @ [(f, url, kw)]\<rparr>))
       (\<lambda>_ s1. case page_action env output_dir actions s1 of
                  (raised, s2) \<Rightarrow> effect (fetch_end env f url kw raised) s2)"

text \<open>
  The dict \<^verbatim>\<open>fetch_kwargs\<close> as it is when the \<^verbatim>\<open>if method == ...\<close> chain starts.
\<close>

definition fetch_kwargs :: "pyval \<Rightarrow> pyval \<Rightarrow> pyval \<Rightarrow> pyval \<Rightarrow> pyval \<Rightarrow> kwargs" where
  "fetch_kwargs headless timeout network_idle real_chrome user_data_dir =
     (let kw0 = [(''headless'', Value headless), (''page_action'', PageAction),
                 (''timeout'', Value timeout), (''network_idle'', Value network_idle)];
          kw1 = (if truthy real_chrome then dict_set ''real_chrome'' (Value (PBool True)) kw0
                 else kw0)
      in if truthy user_data_dir then dict_set ''user_data_dir'' (Value user_data_dir) kw1
         else kw1)"

text \<open>
  The \<^verbatim>\<open>if method == 'stealthy-fetch'\<close> / \<^verbatim>\<open>elif method == 'fetch'\<close> / \<^verbatim>\<open>else\<close> chain
  of \<^verbatim>\<open>execute\<close>, which yields the response.
\<close>

definition fetch_response ::
  "('p, 'l, 'v) env \<Rightarrow> pyval \<Rightarrow> pyval \<Rightarrow> kwargs \<Rightarrow> pyval \<Rightarrow> pyval \<Rightarrow> string \<Rightarrow> pyval
     \<Rightarrow> ('p, 'l) state \<Rightarrow> (exn + response) \<times> ('p, 'l) state" where
  "fetch_response env method url kw timeout solve_cloudflare output_dir actions s =
     (if method = PStr ''stealthy-fetch'' then
        browser_fetch env StealthyFetcher url
          (if truthy solve_cloudflare then dict_set ''solve_cloudflare'' (Value (PBool True)) kw
           else kw)
          output_dir actions s
      else if method = PStr ''fetch'' then
        browser_fetch env DynamicFetcher url kw output_dir actions s
      else
        (case py_floordiv timeout 1000 of
           Inl e \<Rightarrow> (Inl e, s)
         | Inr t \<Rightarrow>
             (let kw3 = dict_set ''timeout'' (Value t)
                          (dict_del ''network_idle'' (dict_del ''page_action'' kw))
              in effect (fetcher_get env url kw3)
                   (s\<lparr>fetches := fetches s @ [(Fetcher, url, kw3)]\<rparr>))))"

definition execute ::
  "('p, 'l, 'v) env \<Rightarrow> pyval \<Rightarrow> ('p, 'l) state \<Rightarrow> (exn + dict) \<times> ('p, 'l) state" where
  "execute env config s =
    (case subscript env config ''url'' of
       Inl e \<Rightarrow> (Inl e, s)
     | Inr url \<Rightarrow>
    (case config of
       PDict cfg \<Rightarrow>
    (let actions = dict_get_default cfg ''actions'' (PList []);
         method = dict_get_default cfg ''method'' (PStr ''stealthy-fetch'');
         headless = dict_get_default cfg ''headless'' (PBool True);
         timeout = dict_get_default cfg ''timeout'' (PInt 45000);
         solve_cloudflare = dict_get_default cfg ''solveCloudflare'' (PBool False);
         real_chrome = dict_get_default cfg ''realChrome'' (PBool False);
         network_idle = dict_get_default cfg ''networkIdle'' (PBool True);
         user_data_dir = dict_get cfg ''userDataDir''
     in
     case make_path env (dict_get_default cfg ''outputDir'' (PStr ''.'')) of
       Inl e \<Rightarrow> (Inl e, s)
     | Inr output_dir \<Rightarrow>
     and_then (effect (mkdir env output_dir) s) (\<lambda>_ s1.
     and_then
       (fetch_response env method url
          (fetch_kwargs headless timeout network_idle real_chrome user_data_dir)
          timeout solve_cloudflare output_dir actions (create_page_action s1))
       (\<lambda>response s3.
          (Inr [(''url'', url),
                (''finalUrl'', case resp_url response of Some u \<Rightarrow> u | None \<Rightarrow> url),
                (''status'', resp_status response),
                (''method'', method),
                (''actions'', get_results s3)], s3))))
     | _ \<Rightarrow> (Inl (subscript_error env config), s)))"

section \<open>main\<close>

text \<open>
  The namespace that \<^verbatim>\<open>parser.parse_args()\<close> returns; an option that was not given
  and has no default is \<^verbatim>\<open>None\<close>.
\<close>

record args =
  arg_url :: "string option"
  arg_actions :: "string option"
  arg_method :: string
  arg_headless :: bool
  arg_no_headless :: bool
  arg_timeout :: int
  arg_solve_cloudflare :: bool
  arg_real_chrome :: bool
  arg_network_idle :: bool
  arg_output_dir :: string
  arg_user_data_dir :: "string option"
  arg_stdin :: bool
  arg_config :: "string option"

text \<open>Truth value of an optional string: \<^verbatim>\<open>None\<close> and \<^verbatim>\<open>''\<close> are false.\<close>

fun nonempty :: "string option \<Rightarrow> bool" where
  "nonempty None = False"
| "nonempty (Some s) = (s \<noteq> [])"

fun opt_str :: "string option \<Rightarrow> pyval" where
  "opt_str None = PNone"
| "opt_str (Some s) = PStr s"

fun the_str :: "string option \<Rightarrow> string" where
  "the_str None = []"
| "the_str (Some s) = s"

text \<open>The config that the \<^verbatim>\<open>elif args.url\<close> branch builds, given the parsed actions.\<close>

definition flags_config :: "args \<Rightarrow> pyval \<Rightarrow> pyval" where
  "flags_config a actions =
     PDict [(''url'', opt_str (arg_url a)),
            (''actions'', actions),
            (''method'', PStr (arg_method a)),
            (''headless'', PBool (\<not> arg_no_headless a)),
            (''timeout'', PInt (arg_timeout a)),
            (''solveCloudflare'', PBool (arg_solve_cloudflare a)),
            (''realChrome'', PBool (arg_real_chrome a)),
            (''networkIdle'', PBool (arg_network_idle a)),
            (''outputDir'', PStr (arg_output_dir a)),
            (''userDataDir'', opt_str (arg_user_data_dir a))]"

text \<open>
  The \<^verbatim>\<open>if args.stdin\<close> / \<^verbatim>\<open>elif args.config\<close> / \<^verbatim>\<open>elif args.url\<close> / \<^verbatim>\<open>else\<close> chain:
  the config, or \<open>None\<close> where the program prints the help and exits. An exception
  here is outside the \<^verbatim>\<open>try\<close> block of \<^verbatim>\<open>main\<close>.
\<close>

definition load_config ::
  "('p, 'l, 'v) env \<Rightarrow> args \<Rightarrow> ('p, 'l) state \<Rightarrow> (exn + pyval option) \<times> ('p, 'l) state" where
  "load_config env a s =
     (if arg_stdin a then
        and_then (effect (read_stdin env) s) (\<lambda>config s1. (Inr (Some config), s1))
      else if nonempty (arg_config a) then
        and_then (effect (read_file env (the_str (arg_config a))) s)
          (\<lambda>config s1. (Inr (Some config), s1))
      else if nonempty (arg_url a) then
        (case (if nonempty (arg_actions a) then json_loads env (the_str (arg_actions a))
               else Inr (PList [])) of
           Inl e \<Rightarrow> (Inl e, s)
         | Inr actions \<Rightarrow> (Inr (Some (flags_config a actions)), s))
      else (Inr None, s))"

text \<open>
  How the process ends: what it printed on each stream, and its exit status, or the
  exception that nothing caught (the interpreter then prints a traceback and the status
  is 1).
\<close>

datatype ending = Exit nat | Uncaught exn

record printed =
  stdout :: "string list"
  stderr :: "string list"
  ending :: ending

definition uncaught :: "exn \<Rightarrow> printed" where
  "uncaught e = \<lparr>stdout = [], stderr = [], ending = Uncaught e\<rparr>"

text \<open>
  The \<^verbatim>\<open>try\<close> block at the end of \<^verbatim>\<open>main\<close>: \<^verbatim>\<open>execute\<close>, then \<^verbatim>\<open>print\<close> of the result
  as JSON; the handler prints the error on \<^verbatim>\<open>stderr\<close> and calls \<^verbatim>\<open>sys.exit(1)\<close>. The
  \<^verbatim>\<open>print\<close> of the result is inside the \<^verbatim>\<open>try\<close>, so an exception that it raises is
  handled like one of \<^verbatim>\<open>execute\<close>. A result consists of JSON values, so \<^verbatim>\<open>json.dumps\<close>
  itself does not raise on it.
\<close>

definition error_exit :: "('p, 'l, 'v) env \<Rightarrow> exn \<Rightarrow> printed" where
  "error_exit env e =
     \<lparr>stdout = [], stderr = [json_dumps env True (PDict [(''error'', PStr e)])],
      ending = Exit 1\<rparr>"

definition run_config ::
  "('p, 'l, 'v) env \<Rightarrow> pyval \<Rightarrow> ('p, 'l) state \<Rightarrow> printed \<times> ('p, 'l) state" where
  "run_config env config s =
     (case execute env config s of
        (Inr result, s') \<Rightarrow>
          (case effect (print_stdout env (json_dumps env False (PDict result))) s' of
             (Inr _, s'') \<Rightarrow>
               (\<lparr>stdout = [json_dumps env False (PDict result)], stderr = [],
                 ending = Exit 0\<rparr>, s'')
           | (Inl e, s'') \<Rightarrow> (error_exit env e, s''))
      | (Inl e, s') \<Rightarrow> (error_exit env e, s'))"

definition main ::
  "('p, 'l, 'v) env \<Rightarrow> args \<Rightarrow> ('p, 'l) state \<Rightarrow> printed \<times> ('p, 'l) state" where
  "main env a s =
     (case load_config env a s of
        (Inl e, s1) \<Rightarrow> (uncaught e, s1)
      | (Inr None, s1) \<Rightarrow> (\<lparr>stdout = [help_text env], stderr = [], ending = Exit 1\<rparr>, s1)
      | (Inr (Some config), s1) \<Rightarrow> run_config env config s1)"

section \<open>What one step does\<close>

text \<open>
  The library operations invoked while step \<open>i\<close> is processed from state \<open>s\<close>, in order,
  each with its outcome; and the record that the step appends to \<^verbatim>\<open>results\<close>.
\<close>

definition step_events ::
  "('p, 'l, 'v) env \<Rightarrow> string \<Rightarrow> nat \<Rightarrow> dict \<Rightarrow> ('p, 'l) state
     \<Rightarrow> ('l libcall \<times> exn option) list" where
  "step_events env output_dir i step s =
     drop (length (trace s)) (trace (snd (try_body env output_dir i step s)))"

definition step_record ::
  "('p, 'l, 'v) env \<Rightarrow> string \<Rightarrow> nat \<Rightarrow> dict \<Rightarrow> ('p, 'l) state \<Rightarrow> dict" where
  "step_record env output_dir i step s =
     (case fst (try_body env output_dir i step s) of
        Inr r \<Rightarrow> r
      | Inl e \<Rightarrow> error_record i (dict_get step ''action'') e)"

text \<open>The state in which step \<open>k\<close> of \<open>actions\<close> starts, when the pass started in \<open>s\<close>.\<close>

definition state_before ::
  "('p, 'l, 'v) env \<Rightarrow> string \<Rightarrow> dict list \<Rightarrow> nat \<Rightarrow> ('p, 'l) state \<Rightarrow> ('p, 'l) state" where
  "state_before env output_dir steps k s =
     snd (page_action_from env output_dir 0 (map PDict (take k steps)) s)"

text \<open>
  A computation keeps \<^verbatim>\<open>results\<close> and only adds to the log; a logged operation that
  raised is the last one logged and its exception is the computation's, unless the
  operation is one whose exceptions are caught on the spot (the predicate \<open>T\<close>).
\<close>

definition traced ::
  "('l libcall \<Rightarrow> bool) \<Rightarrow> ('p, 'l) state \<Rightarrow> (exn + 'a) \<times> ('p, 'l) state \<Rightarrow> bool" where
  "traced T s m \<longleftrightarrow>
     results (snd m) = results s \<and>
     (\<exists>ev. trace (snd m) = trace s @ ev \<and>
        (\<forall>k<length ev. \<forall>e. snd (ev ! k) = Some e \<longrightarrow> \<not> T (fst (ev ! k)) \<longrightarrow>
           Suc k = length ev \<and> fst m = Inl e))"

text \<open>A record built in the \<^verbatim>\<open>try\<close> block starts with the step index and the action.\<close>

definition labelled :: "nat \<Rightarrow> pyval \<Rightarrow> (exn + dict) \<times> 's \<Rightarrow> bool" where
  "labelled i a m \<longleftrightarrow>
     (case fst m of
        Inl e \<Rightarrow> True
      | Inr r \<Rightarrow> take 2 r = [(''step'', PInt (int i)), (''action'', a)])"

fun is_inner_text :: "'l libcall \<Rightarrow> bool" where
  "is_inner_text (InnerText el) = True"
| "is_inner_text c = False"

text \<open>The action names of the \<^verbatim>\<open>if\<close>/\<^verbatim>\<open>elif\<close> chain, in its order.\<close>

definition recognized_actions :: "string list" where
  "recognized_actions =
     [''screenshot'', ''click'', ''fill'', ''type'', ''hover'', ''press'', ''select'',
      ''check'', ''uncheck'', ''wait'', ''wait_selector'', ''wait_url'', ''get_text'',
      ''get_attribute'', ''get_value'', ''list_elements'', ''evaluate'', ''go_back'',
      ''go_forward'', ''reload'', ''scroll'', ''focus'', ''blur'', ''drag'', ''upload_file'',
      ''get_url'', ''get_title'']"

text \<open>The branches that consist of one use of the \<^verbatim>\<open>page\<close> object and nothing else.\<close>

definition single_call_actions :: "string list" where
  "single_call_actions =
     [''click'', ''fill'', ''type'', ''hover'', ''press'', ''select'', ''check'', ''uncheck'',
      ''wait_selector'', ''wait_url'', ''evaluate'', ''go_back'', ''go_forward'', ''reload'',
      ''focus'', ''drag'', ''upload_file'', ''get_url'', ''get_title'']"

text \<open>
  A computation adds between \<open>lo\<close> and \<open>hi\<close> operations to the log; \<open>call_bounds\<close>
  gives these two numbers for each action, read off the branches of the \<^verbatim>\<open>if\<close> chain.
\<close>

definition counted ::
  "nat \<Rightarrow> nat \<Rightarrow> ('p, 'l) state \<Rightarrow> (exn + 'a) \<times> ('p, 'l) state \<Rightarrow> bool" where
  "counted lo hi s m \<longleftrightarrow>
     (\<exists>ev. trace (snd m) = trace s @ ev \<and> lo \<le> length ev \<and> length ev \<le> hi)"

definition call_bounds :: "pyval \<Rightarrow> nat \<times> nat" where
  "call_bounds action =
     (if action \<in> PStr ` set single_call_actions then (1, 1)
      else if action \<in> {PStr ''screenshot'', PStr ''wait''} then (0, 1)
      else if action \<in> {PStr ''get_text'', PStr ''get_attribute'', PStr ''get_value''}
        then (1, 3)
      else if action \<in> {PStr ''scroll'', PStr ''blur''} then (1, 2)
      else if action = PStr ''list_elements'' then (1, 52)
      else (0, 0))"

text \<open>A computation adds no operation to the log twice.\<close>

definition unrepeated :: "('p, 'l) state \<Rightarrow> (exn + 'a) \<times> ('p, 'l) state \<Rightarrow> bool" where
  "unrepeated s m \<longleftrightarrow> (\<exists>ev. trace (snd m) = trace s @ ev \<and> distinct (map fst ev))"

section \<open>A small page for concrete runs\<close>

text \<open>
  A page on which the selector \<^verbatim>\<open>#missing\<close> matches nothing (operations on it raise
  \<^verbatim>\<open>Timeout\<close>), the selector \<^verbatim>\<open>li.many\<close> matches sixty elements whose text is 1200
  characters long, any other selector matches three elements, with handles 1, 2 and 3, and
  reading the text of element 2 raises \<^verbatim>\<open>Detached\<close>. The world counts the operations.
  The terminal takes ASCII text only, and the JSON writer shows the keys and the strings of
  a value.
\<close>

definition missing :: "pyval \<Rightarrow> bool" where
  "missing sel = (sel = PStr ''#missing'')"

fun uses_missing :: "nat libcall \<Rightarrow> bool" where
  "uses_missing (Click sel opts) = missing sel"
| "uses_missing (Fill sel v opts) = missing sel"
| "uses_missing (Type sel v opts) = missing sel"
| "uses_missing (Hover sel opts) = missing sel"
| "uses_missing (Press sel v opts) = missing sel"
| "uses_missing (SelectOption sel v opts) = missing sel"
| "uses_missing (Check sel opts) = missing sel"
| "uses_missing (Uncheck sel opts) = missing sel"
| "uses_missing (WaitForSelector sel opts) = missing sel"
| "uses_missing (Locator sel) = missing sel"
| "uses_missing (Focus sel opts) = missing sel"
| "uses_missing (DragAndDrop sel v opts) = missing sel"
| "uses_missing (SetInputFiles sel v opts) = missing sel"
| "uses_missing c = False"

definition answer :: "'a \<Rightarrow> nat libcall \<Rightarrow> nat \<Rightarrow> (exn + 'a) \<times> nat" where
  "answer x c w = (if uses_missing c then (Inl ''Timeout'', Suc w) else (Inr x, Suc w))"

definition test_loc :: "nat libcall \<Rightarrow> nat \<Rightarrow> (exn + nat) \<times> nat" where
  "test_loc c w =
     (if uses_missing c then (Inl ''Timeout'', Suc w)
      else (Inr (case c of
                   Locator sel \<Rightarrow> if sel = PStr ''li.many'' then 7 else 0
                 | First l \<Rightarrow> l
                 | _ \<Rightarrow> 0), Suc w))"

definition test_locs :: "nat libcall \<Rightarrow> nat \<Rightarrow> (exn + nat list) \<times> nat" where
  "test_locs c w =
     (if c = LocatorAll 7 then (Inr (replicate 60 1), Suc w) else (Inr [1, 2, 3], Suc w))"

definition test_text :: "nat libcall \<Rightarrow> nat \<Rightarrow> (exn + string) \<times> nat" where
  "test_text c w =
     (if c = InnerText 2 then (Inl ''Detached'', Suc w)
      else if c = InnerText 7 then (Inr (replicate 1200 CHR ''x''), Suc w)
      else (Inr ''  some text '', Suc w))"

definition test_int :: "pyval \<Rightarrow> exn + int" where
  "test_int v = (case v of PInt k \<Rightarrow> Inr k | _ \<Rightarrow> Inl ''invalid literal for int()'')"

definition test_join :: "string \<Rightarrow> pyval \<Rightarrow> exn + string" where
  "test_join d v =
     (case v of PStr name \<Rightarrow> Inr (d @ ''/'' @ name)
      | _ \<Rightarrow> Inl ''unsupported operand type(s) for /'')"

definition test_response :: "pyval \<Rightarrow> response" where
  "test_response url = \<lparr>resp_url = Some url, resp_status = PInt 200\<rparr>"

definition test_begin :: "fetcher \<Rightarrow> pyval \<Rightarrow> kwargs \<Rightarrow> nat \<Rightarrow> (exn + unit) \<times> nat" where
  "test_begin f url kw w =
     (if url = PStr ''http://down'' then (Inl ''Connection refused'', Suc w)
      else (Inr (), Suc w))"

definition test_end ::
  "fetcher \<Rightarrow> pyval \<Rightarrow> kwargs \<Rightarrow> exn option \<Rightarrow> nat \<Rightarrow> (exn + response) \<times> nat" where
  "test_end f url kw raised w =
     (case raised of Some e \<Rightarrow> (Inl e, Suc w) | None \<Rightarrow> (Inr (test_response url), Suc w))"

definition test_get :: "pyval \<Rightarrow> kwargs \<Rightarrow> nat \<Rightarrow> (exn + response) \<times> nat" where
  "test_get url kw w =
     (if url = PStr ''http://down'' then (Inl ''Connection refused'', Suc w)
      else (Inr (test_response url), Suc w))"

fun test_text_of :: "pyval \<Rightarrow> string" where
  "test_text_of (PStr s) = s"
| "test_text_of (PList xs) = concat (map test_text_of xs)"
| "test_text_of (PDict d) =
     concat (map (\<lambda>kv. fst kv @ '':'' @ test_text_of (snd kv) @ '';'') d)"
| "test_text_of v = ''_''"

definition is_ascii :: "char \<Rightarrow> bool" where
  "is_ascii c = ((of_char c :: nat) < 128)"

definition test_dumps :: "bool \<Rightarrow> pyval \<Rightarrow> string" where
  "test_dumps ascii v =
     (if ascii then map (\<lambda>c. if is_ascii c then c else CHR ''?'') (test_text_of v)
      else test_text_of v)"

definition test_print :: "string \<Rightarrow> nat \<Rightarrow> (exn + unit) \<times> nat" where
  "test_print text w =
     (if list_all is_ascii text then (Inr (), Suc w)
      else (Inl ''codec cannot encode character'', Suc w))"

definition test_loads :: "string \<Rightarrow> exn + pyval" where
  "test_loads text =
     (if text = ''[]'' then Inr (PList []) else Inl ''Expecting value'')"

definition test_stdin :: "nat \<Rightarrow> (exn + pyval) \<times> nat" where
  "test_stdin w =
     (Inr (PDict [(''url'', PStr ''http://a''),
                  (''actions'', PList [PDict [(''action'', PStr ''get_url'')]])]), Suc w)"

definition test_file :: "string \<Rightarrow> nat \<Rightarrow> (exn + pyval) \<times> nat" where
  "test_file name w =
     (if name = ''cfg.json'' then (Inr (PDict [(''url'', PStr ''http://b'')]), Suc w)
      else (Inl ''No such file or directory'', Suc w))"

definition test_env :: "(nat, nat, string) env" where
  "test_env =
     \<lparr>lib_cmd = answer (), lib_loc = test_loc, lib_locs = test_locs,
      lib_text = test_text, lib_val = answer (PStr ''v''), lib_eval = answer ''42'',
      str_obj = (\<lambda>v. v), fetch_begin = test_begin, fetch_end = test_end,
      fetcher_get = test_get, mkdir = (\<lambda>d w. (Inr (), Suc w)), read_stdin = test_stdin,
      read_file = test_file, py_repr = (\<lambda>v. ''<repr>''), py_int = test_int,
      path_join = test_join, path_error = (\<lambda>v. ''expected str''),
      subscript_error = (\<lambda>v. ''not subscriptable''), json_dumps = test_dumps,
      json_loads = test_loads, print_stdout = test_print, help_text = ''usage''\<rparr>"

text \<open>
  The same page behind a library whose \<^verbatim>\<open>Fetcher.get\<close> refuses the keyword
  \<^verbatim>\<open>headless\<close>, as the one of the wrapped library does.
\<close>

definition strict_get :: "pyval \<Rightarrow> kwargs \<Rightarrow> nat \<Rightarrow> (exn + response) \<times> nat" where
  "strict_get url kw w =
     (if map_of kw ''headless'' \<noteq> None
      then (Inl ''got an unexpected keyword argument'', w)
      else test_get url kw w)"

definition strict_env :: "(nat, nat, string) env" where
  "strict_env = test_env\<lparr>fetcher_get := strict_get\<rparr>"

definition test_state :: "(nat, nat) state" where
  "test_state = \<lparr>world = 0, trace = [], fetches = [], results = []\<rparr>"

definition test_args :: args where
  "test_args =
     \<lparr>arg_url = None, arg_actions = None, arg_method = ''stealthy-fetch'',
      arg_headless = True, arg_no_headless = False, arg_timeout = 45000,
      arg_solve_cloudflare = False, arg_real_chrome = False, arg_network_idle = True,
      arg_output_dir = ''.'', arg_user_data_dir = None, arg_stdin = False,
      arg_config = None\<rparr>"

section \<open>Sequencing and the log\<close>

lemma results_invoke [simp]: "results (snd (invoke f c s)) = results s"
  by (simp add: invoke_def split: prod.splits)

lemma trace_invoke [simp]:
  "trace (snd (invoke f c s)) = trace s @ [(c, outcome (fst (f c (world s))))]"
  by (simp add: invoke_def split: prod.splits)

lemma fetches_invoke [simp]: "fetches (snd (invoke f c s)) = fetches s"
  by (simp add: invoke_def split: prod.splits)

lemma fst_invoke [simp]: "fst (invoke f c s) = fst (f c (world s))"
  by (simp add: invoke_def split: prod.splits)

lemma world_invoke [simp]: "world (snd (invoke f c s)) = snd (f c (world s))"
  by (simp add: invoke_def split: prod.splits)

lemma snd_and_then:
  "snd (and_then m f) = (case fst m of Inl e \<Rightarrow> snd m | Inr x \<Rightarrow> snd (f x (snd m)))"
  by (simp add: and_then_def split: prod.splits sum.splits)

lemma fst_and_then:
  "fst (and_then m f) = (case fst m of Inl e \<Rightarrow> Inl e | Inr x \<Rightarrow> fst (f x (snd m)))"
  by (simp add: and_then_def split: prod.splits sum.splits)

lemma snd_returning [simp]: "snd (returning m r) = snd m"
  by (simp add: returning_def snd_and_then split: sum.splits)

lemma fst_returning:
  "fst (returning m r) = (case fst m of Inl e \<Rightarrow> Inl e | Inr x \<Rightarrow> Inr r)"
  by (simp add: returning_def fst_and_then split: sum.splits)

lemma traced_here: "traced T s (r, s)"
  by (simp add: traced_def)

lemma traced_invoke: "traced T s (invoke f c s)"
  by (cases "fst (f c (world s))") (simp_all add: traced_def outcome_def)

lemma traced_and_then:
  assumes m: "traced T s m"
    and f: "\<And>x. fst m = Inr x \<Longrightarrow> traced T (snd m) (f x (snd m))"
  shows "traced T s (and_then m f)"
proof (cases "fst m")
  case (Inl e)
  then have "and_then m f = (Inl e, snd m)"
    by (cases m) (simp add: and_then_def)
  with m Inl show ?thesis
    by (simp add: traced_def)
next
  case (Inr x)
  then have eq: "and_then m f = f x (snd m)"
    by (cases m) (simp add: and_then_def)
  from m obtain ev1 where ev1: "trace (snd m) = trace s @ ev1"
    and fin1: "\<forall>k<length ev1. \<forall>e. snd (ev1 ! k) = Some e \<longrightarrow> \<not> T (fst (ev1 ! k)) \<longrightarrow>
                 Suc k = length ev1 \<and> fst m = Inl e"
    and res1: "results (snd m) = results s"
    by (auto simp: traced_def)
  from f [OF Inr] obtain ev2 where ev2: "trace (snd (f x (snd m))) = trace (snd m) @ ev2"
    and fin2: "\<forall>k<length ev2. \<forall>e. snd (ev2 ! k) = Some e \<longrightarrow> \<not> T (fst (ev2 ! k)) \<longrightarrow>
                 Suc k = length ev2 \<and> fst (f x (snd m)) = Inl e"
    and res2: "results (snd (f x (snd m))) = results (snd m)"
    by (auto simp: traced_def)
  have quiet: "\<And>k e. k < length ev1 \<Longrightarrow> snd (ev1 ! k) = Some e \<Longrightarrow> T (fst (ev1 ! k))"
    using fin1 Inr by auto
  have "\<forall>k<length (ev1 @ ev2). \<forall>e. snd ((ev1 @ ev2) ! k) = Some e \<longrightarrow>
          \<not> T (fst ((ev1 @ ev2) ! k)) \<longrightarrow>
          Suc k = length (ev1 @ ev2) \<and> fst (f x (snd m)) = Inl e"
  proof (intro allI impI)
    fix k e
    assume k: "k < length (ev1 @ ev2)"
      and some: "snd ((ev1 @ ev2) ! k) = Some e"
      and nt: "\<not> T (fst ((ev1 @ ev2) ! k))"
    show "Suc k = length (ev1 @ ev2) \<and> fst (f x (snd m)) = Inl e"
    proof (cases "k < length ev1")
      case True
      with some nt quiet [of k e] show ?thesis
        by (simp add: nth_append)
    next
      case False
      with k have k2: "k - length ev1 < length ev2" by simp
      from False some nt have "snd (ev2 ! (k - length ev1)) = Some e"
        and "\<not> T (fst (ev2 ! (k - length ev1)))"
        by (simp_all add: nth_append)
      with fin2 k2 have "Suc (k - length ev1) = length ev2 \<and> fst (f x (snd m)) = Inl e"
        by blast
      with False show ?thesis by auto
    qed
  qed
  with ev1 ev2 res1 res2 show ?thesis
    unfolding traced_def eq by (intro conjI exI [of _ "ev1 @ ev2"]) simp_all
qed

lemma traced_returning: "traced T s m \<Longrightarrow> traced T s (returning m r)"
  unfolding returning_def by (rule traced_and_then) (simp_all add: traced_here)

lemma collect_texts_trace:
  "results (snd (collect_texts env els texts s)) = results s \<and>
   fetches (snd (collect_texts env els texts s)) = fetches s \<and>
   (\<exists>ev. trace (snd (collect_texts env els texts s)) = trace s @ ev \<and>
         map fst ev = map InnerText els)"
proof (induction els arbitrary: texts s)
  case Nil
  then show ?case by simp
next
  case (Cons el els)
  obtain r s1 where inv: "invoke (lib_text env) (InnerText el) s = (r, s1)"
    by (cases "invoke (lib_text env) (InnerText el) s")
  then have s1: "results s1 = results s" "fetches s1 = fetches s"
    "trace s1 = trace s @ [(InnerText el, outcome (fst (lib_text env (InnerText el) (world s))))]"
    using results_invoke [of "lib_text env" "InnerText el" s]
      fetches_invoke [of "lib_text env" "InnerText el" s]
      trace_invoke [of "lib_text env" "InnerText el" s] by simp_all
  show ?case
  proof (cases r)
    case (Inl e)
    with inv s1 Cons.IH [of "texts @ [''[no text]'']" s1] show ?thesis by auto
  next
    case (Inr t)
    with inv s1 Cons.IH [of "texts @ [strip (take 200 t)]" s1] show ?thesis by auto
  qed
qed

lemma traced_collect_texts:
  assumes "\<And>el. T (InnerText el)"
  shows "traced T s (Inr x, snd (collect_texts env els texts s))"
proof -
  from collect_texts_trace [of env els texts s]
  obtain ev where ev: "trace (snd (collect_texts env els texts s)) = trace s @ ev"
    and calls: "map fst ev = map InnerText els"
    and res: "results (snd (collect_texts env els texts s)) = results s"
    by auto
  have "\<And>k. k < length ev \<Longrightarrow> T (fst (ev ! k))"
  proof -
    fix k assume k: "k < length ev"
    then have "fst (ev ! k) = map fst ev ! k" by simp
    also have "\<dots> = InnerText (els ! k)" using k calls
      by (metis length_map nth_map)
    finally show "T (fst (ev ! k))" using assms by simp
  qed
  with ev res show ?thesis
    unfolding traced_def by (intro conjI exI [of _ ev]) auto
qed

lemma traced_if:
  "(c \<Longrightarrow> traced T s x) \<Longrightarrow> (\<not> c \<Longrightarrow> traced T s y) \<Longrightarrow> traced T s (if c then x else y)"
  by simp

lemma traced_case_sum:
  "(\<And>e. traced T s (f e)) \<Longrightarrow> (\<And>x. traced T s (g x)) \<Longrightarrow>
   traced T s (case r of Inl e \<Rightarrow> f e | Inr x \<Rightarrow> g x)"
  by (cases r) simp_all

lemma traced_collected:
  "(\<And>el. T (InnerText el)) \<Longrightarrow>
   traced T s (case collect_texts env els texts s of (ts, s') \<Rightarrow> (Inr (h ts), s'))"
  using traced_collect_texts [of T s _ env els texts] by (simp add: case_prod_beta)

lemma try_body_traced:
  "traced (\<lambda>c. dict_get step ''action'' = PStr ''list_elements'' \<and> is_inner_text c) s
     (try_body env out i step s)"
  unfolding try_body_def Let_def
  by (intro traced_if traced_case_sum traced_and_then traced_returning traced_invoke
        traced_here traced_collected) simp

lemma try_body_results [simp]: "results (snd (try_body env out i step s)) = results s"
  using try_body_traced [of step s env out i] by (simp add: traced_def)

lemma try_body_trace:
  "trace (snd (try_body env out i step s)) = trace s @ step_events env out i step s"
  using try_body_traced [of step s env out i] by (auto simp: traced_def step_events_def)

lemma results_process_step:
  "results (process_step env out i step s) = results s @ [step_record env out i step s]"
  by (cases "try_body env out i step s"; cases "fst (try_body env out i step s)")
     (use try_body_results [of env out i step s] in
       \<open>auto simp: process_step_def step_record_def\<close>)

lemma trace_process_step:
  "trace (process_step env out i step s) = trace s @ step_events env out i step s"
  by (cases "try_body env out i step s"; cases "fst (try_body env out i step s)")
     (use try_body_trace [of env out i step s] in
       \<open>auto simp: process_step_def\<close>)

lemma page_action_from_append:
  "page_action_from env out i (map PDict (xs @ ys)) s =
     page_action_from env out (i + length xs) (map PDict ys)
       (snd (page_action_from env out i (map PDict xs) s))"
  by (induction xs arbitrary: i s) simp_all

lemma page_action_from_snoc:
  "snd (page_action_from env out i (map PDict (xs @ [x])) s) =
     process_step env out (i + length xs) x (snd (page_action_from env out i (map PDict xs) s))"
  by (simp only: page_action_from_append) simp

lemma page_action_from_typed: "fst (page_action_from env out i (map PDict steps) s) = None"
  by (induction steps arbitrary: i s) simp_all

lemma results_page_action_from:
  "results (snd (page_action_from env out i (map PDict steps) s)) =
     results s @ map (\<lambda>k. step_record env out (i + k) (steps ! k)
                        (snd (page_action_from env out i (map PDict (take k steps)) s)))
                  [0..<length steps]"
proof (induction steps rule: rev_induct)
  case Nil
  then show ?case by simp
next
  case (snoc x xs)
  define g where "g = (\<lambda>ys k. step_record env out (i + k) (ys ! k)
                (snd (page_action_from env out i (map PDict (take k ys)) s)))"
  have same: "map (g (xs @ [x])) [0..<length xs] = map (g xs) [0..<length xs]"
    by (rule map_cong) (simp_all add: g_def nth_append)
  have last: "g (xs @ [x]) (length xs) =
      step_record env out (i + length xs) x (snd (page_action_from env out i (map PDict xs) s))"
    by (simp add: g_def)
  have "results (snd (page_action_from env out i (map PDict (xs @ [x])) s)) =
        results (snd (page_action_from env out i (map PDict xs) s)) @ [g (xs @ [x]) (length xs)]"
    by (simp only: page_action_from_snoc results_process_step last)
  also have "\<dots> = results s @ map (g xs) [0..<length xs] @ [g (xs @ [x]) (length xs)]"
    using snoc.IH by (simp add: g_def)
  also have "\<dots> = results s @ map (g (xs @ [x])) [0..<length (xs @ [x])]"
    by (simp add: same)
  finally show ?case by (simp add: g_def)
qed

lemma trace_page_action_from:
  "trace (snd (page_action_from env out i (map PDict steps) s)) =
     trace s @ concat (map (\<lambda>k. step_events env out (i + k) (steps ! k)
                        (snd (page_action_from env out i (map PDict (take k steps)) s)))
                  [0..<length steps])"
proof (induction steps rule: rev_induct)
  case Nil
  then show ?case by simp
next
  case (snoc x xs)
  define g where "g = (\<lambda>ys k. step_events env out (i + k) (ys ! k)
                (snd (page_action_from env out i (map PDict (take k ys)) s)))"
  have same: "map (g (xs @ [x])) [0..<length xs] = map (g xs) [0..<length xs]"
    by (rule map_cong) (simp_all add: g_def nth_append)
  have last: "g (xs @ [x]) (length xs) =
      step_events env out (i + length xs) x (snd (page_action_from env out i (map PDict xs) s))"
    by (simp add: g_def)
  have "trace (snd (page_action_from env out i (map PDict (xs @ [x])) s)) =
        trace (snd (page_action_from env out i (map PDict xs) s)) @ g (xs @ [x]) (length xs)"
    by (simp only: page_action_from_snoc trace_process_step last)
  also have "\<dots> = trace s @ concat (map (g xs) [0..<length xs]) @ g (xs @ [x]) (length xs)"
    using snoc.IH by (simp add: g_def)
  also have "\<dots> = trace s @ concat (map (g (xs @ [x])) [0..<length (xs @ [x])])"
    by (simp add: same)
  finally show ?case by (simp add: g_def)
qed

lemma labelled_and_then:
  "(\<And>x s1. labelled i a (f x s1)) \<Longrightarrow> labelled i a (and_then m f)"
  by (cases m; cases "fst m") (auto simp: labelled_def and_then_def)

lemma labelled_returning:
  "take 2 r = [(''step'', PInt (int i)), (''action'', a)] \<Longrightarrow> labelled i a (returning m r)"
  by (cases m; cases "fst m") (auto simp: labelled_def returning_def and_then_def)

lemma labelled_Inl: "labelled i a (Inl e, s)"
  by (simp add: labelled_def)

lemma labelled_Inr:
  "take 2 r = [(''step'', PInt (int i)), (''action'', a)] \<Longrightarrow> labelled i a (Inr r, s)"
  by (simp add: labelled_def)

lemma labelled_if:
  "labelled i a x \<Longrightarrow> labelled i a y \<Longrightarrow> labelled i a (if c then x else y)"
  by simp

lemma labelled_case_sum:
  "(\<And>e. labelled i a (f e)) \<Longrightarrow> (\<And>x. labelled i a (g x)) \<Longrightarrow>
   labelled i a (case r of Inl e \<Rightarrow> f e | Inr x \<Rightarrow> g x)"
  by (cases r) simp_all

lemma labelled_case_prod:
  "(\<And>x y. labelled i a (f x y)) \<Longrightarrow> labelled i a (case p of (x, y) \<Rightarrow> f x y)"
  by (cases p) simp

lemma take2_ok_record:
  "take 2 (ok_record i a rest) = [(''step'', PInt (int i)), (''action'', a)]"
  by (simp add: ok_record_def)

lemma take2_error_record:
  "take 2 (error_record i a e) = [(''step'', PInt (int i)), (''action'', a)]"
  by (simp add: error_record_def)

lemma try_body_labelled: "labelled i (dict_get step ''action'') (try_body env out i step s)"
  unfolding try_body_def Let_def
  by (intro labelled_if labelled_case_sum labelled_case_prod labelled_and_then
        labelled_returning labelled_Inl labelled_Inr take2_ok_record take2_error_record)

lemma step_record_labelled:
  "take 2 (step_record env out i step s) =
     [(''step'', PInt (int i)), (''action'', dict_get step ''action'')]"
  using try_body_labelled [of i step env out s]
  by (cases "fst (try_body env out i step s)")
     (simp_all add: step_record_def labelled_def error_record_def)

lemma step_record_fields:
  "map_of (step_record env out i step s) ''step'' = Some (PInt (int i)) \<and>
   map_of (step_record env out i step s) ''action'' = Some (dict_get step ''action'')"
proof -
  obtain rest where "step_record env out i step s =
      [(''step'', PInt (int i)), (''action'', dict_get step ''action'')] @ rest"
    using step_record_labelled [of env out i step s]
    by (metis append_take_drop_id)
  then show ?thesis by simp
qed

lemma page_action_typed:
  "page_action env out (action_list steps) s = page_action_from env out 0 (map PDict steps) s"
  by (simp add: page_action_def action_list_def py_iter_def)

lemma results_page_action:
  "results (snd (page_action env out (action_list steps) (create_page_action s))) =
     map (\<lambda>k. step_record env out k (steps ! k)
              (state_before env out steps k (create_page_action s))) [0..<length steps]"
  by (simp add: page_action_typed results_page_action_from state_before_def
        create_page_action_def)

lemma trace_page_action:
  "trace (snd (page_action env out (action_list steps) s)) =
     trace s @ concat (map (\<lambda>k. step_events env out k (steps ! k)
              (state_before env out steps k s)) [0..<length steps])"
  by (simp add: page_action_typed trace_page_action_from state_before_def)

lemmas test_defs =
  test_env_def test_state_def answer_def test_loc_def test_locs_def test_text_def
  test_int_def test_join_def
  test_response_def test_begin_def test_end_def test_get_def test_dumps_def test_loads_def
  test_print_def is_ascii_def strict_env_def strict_get_def
  test_stdin_def test_file_def test_args_def missing_def

lemmas run_defs =
  page_action_def action_list_def py_iter_def create_page_action_def process_step_def
  try_body_def Let_def dict_get_def dict_get_default_def returning_def and_then_def
  invoke_def outcome_def timeout_opts_def ok_record_def error_record_def

section \<open>The claims\<close>

text \<open>
  Claim C3. For every action list (a list of dicts), a pass of \<^verbatim>\<open>page_action\<close> over it,
  started with the fresh \<^verbatim>\<open>results\<close> of \<^verbatim>\<open>create_page_action\<close>, does not raise and
  leaves one record per step, in list order: the list of results is as long as the action
  list, its \<open>i\<close>-th entry is the record of step \<open>i\<close> run in the state that steps
  \<open>0 .. i-1\<close> left, it carries \<^verbatim>\<open>'step'\<close> equal to \<open>i\<close> and the \<^verbatim>\<open>'action'\<close> of the
  \<open>i\<close>-th input step, and the library operations were invoked step by step in that order.
\<close>

theorem results_follow_action_list:
  "fst (page_action env out (action_list steps) (create_page_action s)) = None \<and>
   length (results (snd (page_action env out (action_list steps) (create_page_action s))))
     = length steps \<and>
   (\<forall>i<length steps.
      results (snd (page_action env out (action_list steps) (create_page_action s))) ! i
        = step_record env out i (steps ! i)
            (state_before env out steps i (create_page_action s)) \<and>
      map_of (results (snd (page_action env out (action_list steps)
                (create_page_action s))) ! i) ''step'' = Some (PInt (int i)) \<and>
      map_of (results (snd (page_action env out (action_list steps)
                (create_page_action s))) ! i) ''action''
        = Some (dict_get (steps ! i) ''action'')) \<and>
   trace (snd (page_action env out (action_list steps) (create_page_action s))) =
     trace s @ concat (map (\<lambda>i. step_events env out i (steps ! i)
              (state_before env out steps i (create_page_action s))) [0..<length steps])"
proof (intro conjI allI impI)
  show "fst (page_action env out (action_list steps) (create_page_action s)) = None"
    by (simp add: page_action_typed page_action_from_typed)
  show "length (results (snd (page_action env out (action_list steps)
          (create_page_action s)))) = length steps"
    by (simp add: results_page_action)
  show "trace (snd (page_action env out (action_list steps) (create_page_action s))) =
     trace s @ concat (map (\<lambda>i. step_events env out i (steps ! i)
              (state_before env out steps i (create_page_action s))) [0..<length steps])"
    using trace_page_action [of env out steps "create_page_action s"]
    by (simp add: create_page_action_def)
next
  fix i assume i: "i < length steps"
  then show nth: "results (snd (page_action env out (action_list steps)
        (create_page_action s))) ! i
        = step_record env out i (steps ! i)
            (state_before env out steps i (create_page_action s))"
    by (simp add: results_page_action)
  show "map_of (results (snd (page_action env out (action_list steps)
                (create_page_action s))) ! i) ''step'' = Some (PInt (int i))"
    by (simp only: nth step_record_fields)
  show "map_of (results (snd (page_action env out (action_list steps)
                (create_page_action s))) ! i) ''action''
        = Some (dict_get (steps ! i) ''action'')"
    by (simp only: nth step_record_fields)
qed

theorem results_follow_action_list_witness:
  "(1::nat) < length [[(''action'', PStr ''click''), (''selector'', PStr ''#missing'')],
                      [(''action'', PStr ''get_title'')]] \<and>
   results (snd (page_action test_env ''out''
      (action_list [[(''action'', PStr ''click''), (''selector'', PStr ''#missing'')],
                    [(''action'', PStr ''get_title'')]])
      (create_page_action test_state)))
   = [[(''step'', PInt 0), (''action'', PStr ''click''), (''status'', PStr ''error''),
       (''error'', PStr ''Timeout'')],
      [(''step'', PInt 1), (''action'', PStr ''get_title''), (''status'', PStr ''ok''),
       (''title'', PStr ''v'')]] \<and>
   map_of (results (snd (page_action test_env ''out''
      (action_list [[(''action'', PStr ''click''), (''selector'', PStr ''#missing'')],
                    [(''action'', PStr ''get_title'')]])
      (create_page_action test_state))) ! 1) ''step'' = Some (PInt 1)"
  using results_follow_action_list [of test_env "''out''"
      "[[(''action'', PStr ''click''), (''selector'', PStr ''#missing'')],
        [(''action'', PStr ''get_title'')]]" test_state]
  by (simp add: run_defs test_defs)

lemma try_body_unknown:
  assumes "dict_get step ''action'' \<notin> PStr ` set recognized_actions"
  shows "try_body env out i step s =
     (Inr (error_record i (dict_get step ''action'')
        (''Unknown action: '' @ py_format (py_repr env) (dict_get step ''action''))), s)"
  using assms by (simp add: try_body_def Let_def recognized_actions_def)

text \<open>
  Claim C8 as stated gives the record of an unknown action without the key \<^verbatim>\<open>'action'\<close>;
  the record that the code appends has it, as every record has.
\<close>

theorem unknown_action_record_counterexample:
  "dict_get [(''action'', PStr ''teleport'')] ''action'' \<notin> PStr ` set recognized_actions \<and>
   step_record test_env ''out'' 4 [(''action'', PStr ''teleport'')] test_state \<noteq>
     [(''step'', PInt 4), (''status'', PStr ''error''),
      (''error'', PStr ''Unknown action: teleport'')] \<and>
   step_record test_env ''out'' 4 [(''action'', PStr ''teleport'')] test_state =
     [(''step'', PInt 4), (''action'', PStr ''teleport''), (''status'', PStr ''error''),
      (''error'', PStr ''Unknown action: teleport'')]"
  by (simp add: step_record_def try_body_def Let_def dict_get_def recognized_actions_def
        error_record_def)

text \<open>
  Claim C8, as amended. A step whose \<^verbatim>\<open>'action'\<close> is not one of the recognized names (a
  missing key reads as \<^verbatim>\<open>None\<close>) invokes no library operation and leaves the outside world
  as it was; the record appended is
  \<^verbatim>\<open>{'step': i, 'action': <action>, 'status': 'error', 'error': 'Unknown action: <action>'}\<close>,
  and the pass goes on with the next step.
\<close>

theorem unknown_action_recorded:
  assumes "dict_get step ''action'' \<notin> PStr ` set recognized_actions"
  shows "step_events env out i step s = [] \<and>
     process_step env out i step s =
       s\<lparr>results := results s @
          [[(''step'', PInt (int i)), (''action'', dict_get step ''action''),
            (''status'', PStr ''error''),
            (''error'', PStr (''Unknown action: '' @
                py_format (py_repr env) (dict_get step ''action'')))]]\<rparr> \<and>
     page_action_from env out i (PDict step # rest) s =
       page_action_from env out (Suc i) rest
         (s\<lparr>results := results s @
            [[(''step'', PInt (int i)), (''action'', dict_get step ''action''),
              (''status'', PStr ''error''),
              (''error'', PStr (''Unknown action: '' @
                  py_format (py_repr env) (dict_get step ''action'')))]]\<rparr>) \<and>
     (map_of step ''action'' = None \<longrightarrow>
        map_of (step_record env out i step s) ''error'' = Some (PStr ''Unknown action: None''))"
  using try_body_unknown [OF assms, of env out i s]
  by (simp add: step_events_def process_step_def error_record_def step_record_def dict_get_def)

theorem unknown_action_recorded_witness:
  "dict_get [(''action'', PStr ''teleport'')] ''action'' \<notin> PStr ` set recognized_actions \<and>
   step_events test_env ''out'' 4 [(''action'', PStr ''teleport'')] test_state = [] \<and>
   process_step test_env ''out'' 4 [(''action'', PStr ''teleport'')] test_state =
     test_state\<lparr>results :=
        [[(''step'', PInt 4), (''action'', PStr ''teleport''), (''status'', PStr ''error''),
          (''error'', PStr ''Unknown action: teleport'')]]\<rparr> \<and>
   map_of [(''selector'', PStr ''#a'')] ''action'' = None \<and>
   map_of (step_record test_env ''out'' 0 [(''selector'', PStr ''#a'')] test_state) ''error''
     = Some (PStr ''Unknown action: None'')"
proof -
  have h: "dict_get [(''action'', PStr ''teleport'')] ''action'' \<notin> PStr ` set recognized_actions"
    by (simp add: dict_get_def recognized_actions_def)
  have h': "dict_get [(''selector'', PStr ''#a'')] ''action'' \<notin> PStr ` set recognized_actions"
    by (simp add: dict_get_def recognized_actions_def)
  from unknown_action_recorded [OF h, of test_env "''out''" 4 test_state "[]"]
    unknown_action_recorded [OF h', of test_env "''out''" 0 test_state "[]"] h
  show ?thesis by (simp add: dict_get_def test_state_def)
qed

lemma length_strip: "length (strip s) \<le> length s"
proof -
  have "length (strip s) = length (dropWhile py_isspace (rev (dropWhile py_isspace s)))"
    by (simp add: strip_def)
  also have "\<dots> \<le> length (rev (dropWhile py_isspace s))"
    by (rule length_dropWhile_le)
  also have "\<dots> \<le> length s"
    by (simp add: length_dropWhile_le)
  finally show ?thesis .
qed

lemma collect_texts_fst:
  "\<exists>new. fst (collect_texts env els texts s) = texts @ new \<and> length new = length els \<and>
         (\<forall>t\<in>set new. length t \<le> 200)"
proof (induction els arbitrary: texts s)
  case Nil
  then show ?case by simp
next
  case (Cons el els)
  obtain r s1 where inv: "invoke (lib_text env) (InnerText el) s = (r, s1)"
    by (cases "invoke (lib_text env) (InnerText el) s")
  show ?case
  proof (cases r)
    case (Inl e)
    from Cons.IH [of "texts @ [''[no text]'']" s1] obtain new
      where "fst (collect_texts env els (texts @ [''[no text]'']) s1)
               = (texts @ [''[no text]'']) @ new"
        and "length new = length els" and "\<forall>t\<in>set new. length t \<le> 200"
      by blast
    with inv Inl show ?thesis
      by (intro exI [of _ "''[no text]'' # new"]) simp
  next
    case (Inr t)
    have short: "length (strip (take 200 t)) \<le> 200"
      using length_strip [of "take 200 t"] by simp
    from Cons.IH [of "texts @ [strip (take 200 t)]" s1] obtain new
      where "fst (collect_texts env els (texts @ [strip (take 200 t)]) s1)
               = (texts @ [strip (take 200 t)]) @ new"
        and "length new = length els" and "\<forall>t\<in>set new. length t \<le> 200"
      by blast
    with inv Inr short show ?thesis
      by (intro exI [of _ "strip (take 200 t) # new"]) simp
  qed
qed

lemma collect_texts_bounds:
  "length (fst (collect_texts env els [] s)) = length els \<and>
   (\<forall>t\<in>set (fst (collect_texts env els [] s)). length t \<le> 200)"
  using collect_texts_fst [of env els "[]" s] by auto

lemma try_body_get_text:
  "dict_get step ''action'' = PStr ''get_text'' \<Longrightarrow>
   try_body env out i step s =
     and_then (invoke (lib_loc env) (Locator (dict_get step ''selector'')) s) (\<lambda>loc s1.
     and_then (invoke (lib_loc env) (First loc) s1) (\<lambda>fst_loc s2.
     and_then (invoke (lib_text env) (InnerText fst_loc) s2) (\<lambda>text s3.
       (Inr (ok_record i (PStr ''get_text'')
          [(''selector'', dict_get step ''selector''), (''text'', PStr (take 1000 text))]),
        s3))))"
  by (simp add: try_body_def Let_def)

lemma try_body_evaluate:
  "dict_get step ''action'' = PStr ''evaluate'' \<Longrightarrow>
   try_body env out i step s =
     and_then (invoke (lib_eval env) (Evaluate (dict_get step ''value'')) s) (\<lambda>result s1.
       (Inr (ok_record i (PStr ''evaluate'')
          [(''result'', PStr (take 1000 (str_obj env result)))]), s1))"
  by (simp add: try_body_def Let_def)

lemma try_body_list_elements:
  "dict_get step ''action'' = PStr ''list_elements'' \<Longrightarrow>
   try_body env out i step s =
     and_then (invoke (lib_loc env) (Locator (dict_get step ''selector'')) s) (\<lambda>loc s1.
     and_then (invoke (lib_locs env) (LocatorAll loc) s1) (\<lambda>elements s2.
       (case collect_texts env (take 50 elements) [] s2 of
          (texts, s3) \<Rightarrow>
            (Inr (ok_record i (PStr ''list_elements'')
               [(''selector'', dict_get step ''selector''),
                (''count'', PInt (int (length elements))),
                (''texts'', PList (map PStr texts))]), s3))))"
  by (simp add: try_body_def Let_def)

lemma get_text_bounded:
  assumes "dict_get step ''action'' = PStr ''get_text''"
  shows "(\<forall>v. map_of (step_record env out i step s) ''text'' = Some v \<longrightarrow>
            (\<exists>t. v = PStr t \<and> length t \<le> 1000)) \<and>
         (\<forall>l w1 f w2 text w3.
            lib_loc env (Locator (dict_get step ''selector'')) (world s) = (Inr l, w1) \<longrightarrow>
            lib_loc env (First l) w1 = (Inr f, w2) \<longrightarrow>
            lib_text env (InnerText f) w2 = (Inr text, w3) \<longrightarrow>
            map_of (step_record env out i step s) ''text'' = Some (PStr (take 1000 text)))"
  unfolding step_record_def try_body_get_text [OF assms]
  by (auto simp: and_then_def invoke_def ok_record_def error_record_def
        split: prod.splits sum.splits)

lemma evaluate_bounded:
  assumes "dict_get step ''action'' = PStr ''evaluate''"
  shows "(\<forall>v. map_of (step_record env out i step s) ''result'' = Some v \<longrightarrow>
            (\<exists>t. v = PStr t \<and> length t \<le> 1000)) \<and>
         (\<forall>x w1. lib_eval env (Evaluate (dict_get step ''value'')) (world s) = (Inr x, w1) \<longrightarrow>
            map_of (step_record env out i step s) ''result''
              = Some (PStr (take 1000 (str_obj env x))))"
  unfolding step_record_def try_body_evaluate [OF assms]
  by (auto simp: and_then_def invoke_def ok_record_def error_record_def
        split: prod.splits sum.splits)

lemma list_elements_bounded:
  assumes "dict_get step ''action'' = PStr ''list_elements''"
  shows "(\<forall>v. map_of (step_record env out i step s) ''texts'' = Some v \<longrightarrow>
            (\<exists>ts. v = PList (map PStr ts) \<and> length ts \<le> 50 \<and>
                  (\<forall>t\<in>set ts. length t \<le> 200))) \<and>
         (\<forall>l w1 els w2.
            lib_loc env (Locator (dict_get step ''selector'')) (world s) = (Inr l, w1) \<longrightarrow>
            lib_locs env (LocatorAll l) w1 = (Inr els, w2) \<longrightarrow>
            map_of (step_record env out i step s) ''count'' = Some (PInt (int (length els))) \<and>
            (\<exists>ts. map_of (step_record env out i step s) ''texts'' = Some (PList (map PStr ts))
                  \<and> length ts = min 50 (length els)))"
proof -
  have b: "\<And>els s'. length (fst (collect_texts env (take 50 els) [] s')) = min 50 (length els)
      \<and> (\<forall>t\<in>set (fst (collect_texts env (take 50 els) [] s')). length t \<le> 200)"
    using collect_texts_bounds [of env "take 50 els" s' for els s']
    by (simp add: min.commute)
  show ?thesis
    unfolding step_record_def try_body_list_elements [OF assms]
    using b
    by (auto simp: and_then_def invoke_def ok_record_def error_record_def case_prod_beta
          split: prod.splits sum.splits)
qed

text \<open>
  Claim C10. The recorded outputs are bounded: the \<^verbatim>\<open>'text'\<close> of a \<^verbatim>\<open>get_text\<close> record and
  the \<^verbatim>\<open>'result'\<close> of an \<^verbatim>\<open>evaluate\<close> record are strings of at most 1000 characters
  (the first 1000 of what the library returned), and the \<^verbatim>\<open>'texts'\<close> of a
  \<^verbatim>\<open>list_elements\<close> record are at most 50 strings of at most 200 characters each (one for
  each of the first 50 matched elements), while its \<^verbatim>\<open>'count'\<close> is the number of all the
  elements that the library returned.
\<close>

theorem recorded_outputs_bounded:
  "(dict_get step ''action'' = PStr ''get_text'' \<longrightarrow>
      (\<forall>v. map_of (step_record env out i step s) ''text'' = Some v \<longrightarrow>
            (\<exists>t. v = PStr t \<and> length t \<le> 1000)) \<and>
      (\<forall>l w1 f w2 text w3.
            lib_loc env (Locator (dict_get step ''selector'')) (world s) = (Inr l, w1) \<longrightarrow>
            lib_loc env (First l) w1 = (Inr f, w2) \<longrightarrow>
            lib_text env (InnerText f) w2 = (Inr text, w3) \<longrightarrow>
            map_of (step_record env out i step s) ''text'' = Some (PStr (take 1000 text)))) \<and>
   (dict_get step ''action'' = PStr ''evaluate'' \<longrightarrow>
      (\<forall>v. map_of (step_record env out i step s) ''result'' = Some v \<longrightarrow>
            (\<exists>t. v = PStr t \<and> length t \<le> 1000)) \<and>
      (\<forall>x w1. lib_eval env (Evaluate (dict_get step ''value'')) (world s) = (Inr x, w1) \<longrightarrow>
            map_of (step_record env out i step s) ''result''
              = Some (PStr (take 1000 (str_obj env x))))) \<and>
   (dict_get step ''action'' = PStr ''list_elements'' \<longrightarrow>
      (\<forall>v. map_of (step_record env out i step s) ''texts'' = Some v \<longrightarrow>
            (\<exists>ts. v = PList (map PStr ts) \<and> length ts \<le> 50 \<and>
                  (\<forall>t\<in>set ts. length t \<le> 200))) \<and>
      (\<forall>l w1 els w2.
            lib_loc env (Locator (dict_get step ''selector'')) (world s) = (Inr l, w1) \<longrightarrow>
            lib_locs env (LocatorAll l) w1 = (Inr els, w2) \<longrightarrow>
            map_of (step_record env out i step s) ''count'' = Some (PInt (int (length els))) \<and>
            (\<exists>ts. map_of (step_record env out i step s) ''texts'' = Some (PList (map PStr ts))
                  \<and> length ts = min 50 (length els))))"
  using get_text_bounded [of step env out i s] evaluate_bounded [of step env out i s]
    list_elements_bounded [of step env out i s]
  by blast

theorem recorded_outputs_bounded_witness:
  "dict_get [(''action'', PStr ''get_text''), (''selector'', PStr ''li.many'')] ''action''
     = PStr ''get_text'' \<and>
   map_of (step_record test_env ''out'' 0
      [(''action'', PStr ''get_text''), (''selector'', PStr ''li.many'')] test_state) ''text''
     = Some (PStr (replicate 1000 CHR ''x'')) \<and>
   dict_get [(''action'', PStr ''evaluate''), (''value'', PStr ''6 * 7'')] ''action''
     = PStr ''evaluate'' \<and>
   map_of (step_record test_env ''out'' 0
      [(''action'', PStr ''evaluate''), (''value'', PStr ''6 * 7'')] test_state) ''result''
     = Some (PStr ''42'') \<and>
   dict_get [(''action'', PStr ''list_elements''), (''selector'', PStr ''li.many'')] ''action''
     = PStr ''list_elements'' \<and>
   map_of (step_record test_env ''out'' 0
      [(''action'', PStr ''list_elements''), (''selector'', PStr ''li.many'')] test_state)
      ''count'' = Some (PInt 60) \<and>
   (\<exists>ts. map_of (step_record test_env ''out'' 0
      [(''action'', PStr ''list_elements''), (''selector'', PStr ''li.many'')] test_state)
      ''texts'' = Some (PList (map PStr ts)) \<and> length ts = 50 \<and>
      (\<forall>t\<in>set ts. length t \<le> 200))"
proof -
  let ?gt = "[(''action'', PStr ''get_text''), (''selector'', PStr ''li.many'')]"
  let ?ev = "[(''action'', PStr ''evaluate''), (''value'', PStr ''6 * 7'')]"
  let ?le = "[(''action'', PStr ''list_elements''), (''selector'', PStr ''li.many'')]"
  have a1: "dict_get ?gt ''action'' = PStr ''get_text''"
    and a2: "dict_get ?ev ''action'' = PStr ''evaluate''"
    and a3: "dict_get ?le ''action'' = PStr ''list_elements''"
    by (simp_all add: dict_get_def)
  have l1: "lib_loc test_env (Locator (dict_get ?gt ''selector'')) (world test_state)
      = (Inr 7, 1)"
    and l2: "lib_loc test_env (First 7) 1 = (Inr 7, 2)"
    and l3: "lib_text test_env (InnerText 7) 2 = (Inr (replicate 1200 CHR ''x''), 3)"
    and l4: "lib_eval test_env (Evaluate (dict_get ?ev ''value'')) (world test_state)
      = (Inr ''42'', 1)"
    and l5: "lib_loc test_env (Locator (dict_get ?le ''selector'')) (world test_state)
      = (Inr 7, 1)"
    and l6: "lib_locs test_env (LocatorAll 7) 1 = (Inr (replicate 60 1), 2)"
    by (simp_all add: test_defs dict_get_def)
  from recorded_outputs_bounded [of ?gt test_env "''out''" 0 test_state] a1 l1 l2 l3
  have t: "map_of (step_record test_env ''out'' 0 ?gt test_state) ''text''
      = Some (PStr (take 1000 (replicate 1200 CHR ''x'')))"
    by blast
  from recorded_outputs_bounded [of ?ev test_env "''out''" 0 test_state] a2 l4
  have r: "map_of (step_record test_env ''out'' 0 ?ev test_state) ''result''
      = Some (PStr (take 1000 (str_obj test_env ''42'')))"
    by blast
  from recorded_outputs_bounded [of ?le test_env "''out''" 0 test_state] a3 l5 l6
  have c: "map_of (step_record test_env ''out'' 0 ?le test_state) ''count''
        = Some (PInt (int (length (replicate 60 (1::nat)))))"
    and "\<exists>ts. map_of (step_record test_env ''out'' 0 ?le test_state) ''texts''
        = Some (PList (map PStr ts)) \<and> length ts = min 50 (length (replicate 60 (1::nat)))"
    by blast+
  then obtain ts where ts: "map_of (step_record test_env ''out'' 0 ?le test_state) ''texts''
        = Some (PList (map PStr ts))" "length ts = 50"
    by auto
  from recorded_outputs_bounded [of ?le test_env "''out''" 0 test_state] a3 ts(1)
  obtain ts' where "PList (map PStr ts) = PList (map PStr ts')"
    and "\<forall>t\<in>set ts'. length t \<le> 200"
    by blast
  then have "\<forall>t\<in>set ts. length t \<le> 200"
    by (simp add: inj_map_eq_map inj_on_def)
  with ts have e: "\<exists>ts. map_of (step_record test_env ''out'' 0 ?le test_state) ''texts''
      = Some (PList (map PStr ts)) \<and> length ts = 50 \<and> (\<forall>t\<in>set ts. length t \<le> 200)"
    by blast
  have tk: "take 1000 (replicate 1200 CHR ''x'') = replicate 1000 CHR ''x''"
    by simp
  from a1 a2 a3 t r c e show ?thesis
    by (simp only: tk) (simp add: test_env_def)
qed

lemma step_failure_last:
  assumes j: "j < length (step_events env out i step s)"
    and e: "snd (step_events env out i step s ! j) = Some e"
    and nt: "\<not> (dict_get step ''action'' = PStr ''list_elements'' \<and>
               is_inner_text (fst (step_events env out i step s ! j)))"
  shows "Suc j = length (step_events env out i step s) \<and>
         fst (try_body env out i step s) = Inl e"
proof -
  from try_body_traced [of step s env out i] obtain ev
    where ev: "trace (snd (try_body env out i step s)) = trace s @ ev"
      and fin: "\<forall>k<length ev. \<forall>e. snd (ev ! k) = Some e \<longrightarrow>
         \<not> (dict_get step ''action'' = PStr ''list_elements'' \<and> is_inner_text (fst (ev ! k))) \<longrightarrow>
           Suc k = length ev \<and> fst (try_body env out i step s) = Inl e"
    unfolding traced_def by blast
  from ev have "step_events env out i step s = ev"
    by (simp add: step_events_def)
  with fin j e nt show ?thesis by blast
qed

lemma step_failure:
  assumes "(c, Some e) \<in> set (step_events env out i step s)"
    and "\<not> (dict_get step ''action'' = PStr ''list_elements'' \<and> is_inner_text c)"
  shows "step_record env out i step s = error_record i (dict_get step ''action'') e"
proof -
  from assms(1) obtain j where j: "j < length (step_events env out i step s)"
    and at: "step_events env out i step s ! j = (c, Some e)"
    by (auto simp: in_set_conv_nth)
  with assms(2) step_failure_last [of j env out i step s e]
  have "fst (try_body env out i step s) = Inl e" by simp
  then show ?thesis by (simp add: step_record_def)
qed

lemma page_action_split:
  assumes "k < length steps"
  shows "page_action env out (action_list steps) s =
     page_action_from env out (Suc k) (map PDict (drop (Suc k) steps))
       (process_step env out k (steps ! k) (state_before env out steps k s))"
proof -
  from assms have "steps = take k steps @ (steps ! k # drop (Suc k) steps)"
    by (simp add: id_take_nth_drop [symmetric])
  then have "page_action_from env out 0 (map PDict steps) s =
      page_action_from env out 0 (map PDict (take k steps @ (steps ! k # drop (Suc k) steps))) s"
    by simp
  also have "\<dots> = page_action_from env out (0 + length (take k steps))
       (map PDict (steps ! k # drop (Suc k) steps)) (state_before env out steps k s)"
    unfolding state_before_def by (rule page_action_from_append)
  also have "\<dots> = page_action_from env out (Suc k) (map PDict (drop (Suc k) steps))
       (process_step env out k (steps ! k) (state_before env out steps k s))"
    using assms by simp
  finally show ?thesis by (simp add: page_action_typed)
qed

text \<open>
  Claim C1, as amended. If an operation of the library invoked for step \<open>k\<close> raises an
  exception with message \<open>e\<close>, and the operation is not an \<^verbatim>\<open>inner_text\<close> read of the
  \<^verbatim>\<open>list_elements\<close> loop, then the record of step \<open>k\<close> is
  \<^verbatim>\<open>{'step': k, 'action': <action>, 'status': 'error', 'error': e}\<close>, and the pass goes on
  with step \<open>k + 1\<close>: it does not raise and leaves one record for every step of the list.
\<close>

theorem failing_step_recorded:
  assumes "k < length steps"
    and "(c, Some e) \<in> set (step_events env out k (steps ! k)
            (state_before env out steps k (create_page_action s)))"
    and "\<not> (dict_get (steps ! k) ''action'' = PStr ''list_elements'' \<and> is_inner_text c)"
  shows "results (snd (page_action env out (action_list steps) (create_page_action s))) ! k =
       [(''step'', PInt (int k)), (''action'', dict_get (steps ! k) ''action''),
        (''status'', PStr ''error''), (''error'', PStr e)] \<and>
     page_action env out (action_list steps) (create_page_action s) =
       page_action_from env out (Suc k) (map PDict (drop (Suc k) steps))
         (process_step env out k (steps ! k)
            (state_before env out steps k (create_page_action s))) \<and>
     fst (page_action env out (action_list steps) (create_page_action s)) = None \<and>
     length (results (snd (page_action env out (action_list steps) (create_page_action s))))
       = length steps"
proof (intro conjI)
  from assms(1) have "results (snd (page_action env out (action_list steps)
        (create_page_action s))) ! k =
      step_record env out k (steps ! k) (state_before env out steps k (create_page_action s))"
    by (simp add: results_page_action)
  with step_failure [OF assms(2,3)]
  show "results (snd (page_action env out (action_list steps) (create_page_action s))) ! k =
       [(''step'', PInt (int k)), (''action'', dict_get (steps ! k) ''action''),
        (''status'', PStr ''error''), (''error'', PStr e)]"
    by (simp add: error_record_def)
  show "page_action env out (action_list steps) (create_page_action s) =
       page_action_from env out (Suc k) (map PDict (drop (Suc k) steps))
         (process_step env out k (steps ! k)
            (state_before env out steps k (create_page_action s)))"
    by (rule page_action_split [OF assms(1)])
  show "fst (page_action env out (action_list steps) (create_page_action s)) = None"
    by (simp add: page_action_typed page_action_from_typed)
  show "length (results (snd (page_action env out (action_list steps)
          (create_page_action s)))) = length steps"
    by (simp add: results_page_action)
qed

lemmas list_defs = collect_texts.simps strip_def py_isspace_def step_events_def
  step_record_def state_before_def

text \<open>
  Claim C1 as stated fails where the claim's "library call made for step i" is an
  \<^verbatim>\<open>inner_text\<close> read inside \<^verbatim>\<open>list_elements\<close>: the read of the second element raises,
  and the record of the step has status \<^verbatim>\<open>'ok'\<close>, with \<^verbatim>\<open>'[no text]'\<close> for that element.
\<close>

theorem failing_element_read_counterexample:
  "(InnerText 2, Some ''Detached'') \<in> set (step_events test_env ''out'' 0
      [(''action'', PStr ''list_elements''), (''selector'', PStr ''li'')]
      (create_page_action test_state)) \<and>
   results (snd (page_action test_env ''out''
      (action_list [[(''action'', PStr ''list_elements''), (''selector'', PStr ''li'')]])
      (create_page_action test_state))) =
     [[(''step'', PInt 0), (''action'', PStr ''list_elements''), (''status'', PStr ''ok''),
       (''selector'', PStr ''li''), (''count'', PInt 3),
       (''texts'', PList [PStr ''some text'', PStr ''[no text]'', PStr ''some text''])]]"
  by (simp add: run_defs test_defs list_defs)

theorem failing_step_recorded_witness:
  "(0::nat) < length [[(''action'', PStr ''click''), (''selector'', PStr ''#missing'')],
                      [(''action'', PStr ''get_title'')]] \<and>
   (Click (PStr ''#missing'') None, Some ''Timeout'') \<in> set (step_events test_env ''out'' 0
      ([[(''action'', PStr ''click''), (''selector'', PStr ''#missing'')],
        [(''action'', PStr ''get_title'')]] ! 0)
      (state_before test_env ''out''
         [[(''action'', PStr ''click''), (''selector'', PStr ''#missing'')],
          [(''action'', PStr ''get_title'')]] 0 (create_page_action test_state))) \<and>
   results (snd (page_action test_env ''out''
      (action_list [[(''action'', PStr ''click''), (''selector'', PStr ''#missing'')],
                    [(''action'', PStr ''get_title'')]])
      (create_page_action test_state))) ! 0 =
     [(''step'', PInt 0), (''action'', PStr ''click''), (''status'', PStr ''error''),
      (''error'', PStr ''Timeout'')] \<and>
   length (results (snd (page_action test_env ''out''
      (action_list [[(''action'', PStr ''click''), (''selector'', PStr ''#missing'')],
                    [(''action'', PStr ''get_title'')]])
      (create_page_action test_state)))) = 2"
proof -
  let ?steps = "[[(''action'', PStr ''click''), (''selector'', PStr ''#missing'')],
                 [(''action'', PStr ''get_title'')]]"
  have h1: "(0::nat) < length ?steps" by simp
  have h2: "(Click (PStr ''#missing'') None, Some ''Timeout'') \<in> set (step_events test_env
      ''out'' 0 (?steps ! 0) (state_before test_env ''out'' ?steps 0
         (create_page_action test_state)))"
    by (simp add: run_defs test_defs list_defs)
  have h3: "\<not> (dict_get (?steps ! 0) ''action'' = PStr ''list_elements'' \<and>
      is_inner_text (Click (PStr ''#missing'') None :: nat libcall))"
    by simp
  note r = failing_step_recorded [OF h1 h2 h3]
  have c1: "results (snd (page_action test_env ''out'' (action_list ?steps)
        (create_page_action test_state))) ! 0 =
      [(''step'', PInt (int 0)), (''action'', dict_get (?steps ! 0) ''action''),
       (''status'', PStr ''error''), (''error'', PStr ''Timeout'')]"
    using r by (rule conjunct1)
  have c2: "length (results (snd (page_action test_env ''out'' (action_list ?steps)
        (create_page_action test_state)))) = length ?steps"
    using r by blast
  from c1 have c1': "results (snd (page_action test_env ''out'' (action_list ?steps)
        (create_page_action test_state))) ! 0 =
      [(''step'', PInt 0), (''action'', PStr ''click''),
       (''status'', PStr ''error''), (''error'', PStr ''Timeout'')]"
    by (simp add: dict_get_def)
  from c2 have c2': "length (results (snd (page_action test_env ''out'' (action_list ?steps)
        (create_page_action test_state)))) = 2"
    by simp
  from h1 h2 c1' c2' show ?thesis by blast
qed

lemma counted_none: "counted 0 0 s (r, s)"
  by (simp add: counted_def)

lemma counted_call: "counted (Suc 0) (Suc 0) s (returning (invoke f c s) r)"
  by (simp add: counted_def)

lemma counted_read: "counted (Suc 0) (Suc 0) s (and_then (invoke f c s) (\<lambda>x s1. (Inr (g x), s1)))"
  by (simp add: counted_def snd_and_then split: sum.splits)

lemma counted_guarded:
  "counted 0 (Suc 0) s (case r of Inl e \<Rightarrow> (Inl e, s)
                  | Inr p \<Rightarrow> returning (invoke f (c p) s) (g p))"
  by (cases r) (simp_all add: counted_def)

lemma counted_chain2:
  "counted (Suc 0) 2 s (and_then (invoke f1 c1 s) (\<lambda>a s1. returning (invoke f2 (c2 a) s1) r))"
  by (simp add: counted_def snd_and_then split: sum.splits)

lemma counted_chain3:
  "counted (Suc 0) 3 s (and_then (invoke f1 c1 s) (\<lambda>a s1.
     and_then (invoke f2 (c2 a) s1) (\<lambda>b s2.
     and_then (invoke f3 (c3 b) s2) (\<lambda>x s3. (Inr (g x), s3)))))"
  by (simp add: counted_def snd_and_then fst_and_then split: sum.splits)

lemma counted_list:
  "counted (Suc 0) 52 s (and_then (invoke f1 c1 s) (\<lambda>a s1.
     and_then (invoke f2 (c2 a) s1) (\<lambda>els s2.
       case collect_texts env (take 50 els) [] s2 of
         (texts, s3) \<Rightarrow> (Inr (g els texts), s3))))"
proof -
  have col: "\<And>els s2. \<exists>ev. trace (snd (collect_texts env (take 50 els) [] s2)) = trace s2 @ ev
      \<and> length ev \<le> 50"
  proof -
    fix els s2
    from collect_texts_trace [of env "take 50 els" "[]" s2] obtain ev
      where ev: "trace (snd (collect_texts env (take 50 els) [] s2)) = trace s2 @ ev"
        and m: "map fst ev = map InnerText (take 50 els)"
      by blast
    from m have "length ev = length (take 50 els)"
      by (metis length_map)
    with ev show "\<exists>ev. trace (snd (collect_texts env (take 50 els) [] s2)) = trace s2 @ ev
      \<and> length ev \<le> 50"
      by auto
  qed
  show ?thesis
  proof (cases "fst (f1 c1 (world s))")
    case (Inl e)
    then show ?thesis by (simp add: counted_def snd_and_then)
  next
    case a: (Inr a)
    show ?thesis
    proof (cases "fst (f2 (c2 a) (world (snd (invoke f1 c1 s))))")
      case (Inl e)
      with a show ?thesis by (simp add: counted_def snd_and_then fst_and_then)
    next
      case (Inr els)
      from col [of els "snd (invoke f2 (c2 a) (snd (invoke f1 c1 s)))"] obtain ev
        where "trace (snd (collect_texts env (take 50 els) []
                 (snd (invoke f2 (c2 a) (snd (invoke f1 c1 s)))))) =
               trace (snd (invoke f2 (c2 a) (snd (invoke f1 c1 s)))) @ ev"
          and "length ev \<le> 50"
        by blast
      with a Inr show ?thesis
        by (simp add: counted_def snd_and_then fst_and_then case_prod_beta)
    qed
  qed
qed

lemma counted_if:
  "(c \<Longrightarrow> counted lo hi s x) \<Longrightarrow> (\<not> c \<Longrightarrow> counted lo hi s y) \<Longrightarrow>
   counted lo hi s (if c then x else y)"
  by simp

lemma try_body_counted:
  "counted (fst (call_bounds (dict_get step ''action'')))
           (snd (call_bounds (dict_get step ''action''))) s (try_body env out i step s)"
  unfolding try_body_def Let_def
  by (intro counted_if)
     (simp_all add: call_bounds_def single_call_actions_def counted_none counted_call
        counted_read counted_guarded counted_chain2 counted_chain3 counted_list)

lemma step_events_count:
  "fst (call_bounds (dict_get step ''action'')) \<le> length (step_events env out i step s) \<and>
   length (step_events env out i step s) \<le> snd (call_bounds (dict_get step ''action''))"
  using try_body_counted [of step s env out i]
  by (auto simp: counted_def step_events_def)

lemma try_body_screenshot:
  "dict_get step ''action'' = PStr ''screenshot'' \<Longrightarrow>
   try_body env out i step s =
     (case path_join env out
             (if truthy (dict_get step ''filename'') then dict_get step ''filename''
              else PStr (''screenshot-'' @ str_nat i @ ''.png'')) of
        Inl e \<Rightarrow> (Inl e, s)
      | Inr path \<Rightarrow>
          returning (invoke (lib_cmd env) (Screenshot path) s)
            (ok_record i (PStr ''screenshot'') [(''path'', PStr path)]))"
  by (simp add: try_body_def Let_def)

lemma try_body_wait:
  "dict_get step ''action'' = PStr ''wait'' \<Longrightarrow>
   try_body env out i step s =
     (case (if truthy (dict_get step ''value'') then py_int env (dict_get step ''value'')
            else Inr 1000) of
        Inl e \<Rightarrow> (Inl e, s)
      | Inr ms \<Rightarrow>
          returning (invoke (lib_cmd env) (WaitForTimeout ms) s)
            (ok_record i (PStr ''wait'') [(''ms'', PInt ms)]))"
  by (simp add: try_body_def Let_def)

lemma screenshot_events:
  assumes "dict_get step ''action'' = PStr ''screenshot''"
  shows "map fst (step_events env out i step s) =
     (case path_join env out
             (if truthy (dict_get step ''filename'') then dict_get step ''filename''
              else PStr (''screenshot-'' @ str_nat i @ ''.png'')) of
        Inl e \<Rightarrow> []
      | Inr path \<Rightarrow> [Screenshot path])"
  unfolding step_events_def try_body_screenshot [OF assms]
  by (simp split: sum.splits)

lemma wait_events:
  assumes "dict_get step ''action'' = PStr ''wait''"
  shows "map fst (step_events env out i step s) =
     (case (if truthy (dict_get step ''value'') then py_int env (dict_get step ''value'')
            else Inr 1000) of
        Inl e \<Rightarrow> []
      | Inr ms \<Rightarrow> [WaitForTimeout ms])"
  unfolding step_events_def try_body_wait [OF assms]
  by (simp split: sum.splits)

lemma list_elements_events:
  assumes a: "dict_get step ''action'' = PStr ''list_elements''"
    and l: "lib_loc env (Locator (dict_get step ''selector'')) (world s) = (Inr l, w1)"
    and els: "lib_locs env (LocatorAll l) w1 = (Inr els, w2)"
  shows "map fst (step_events env out i step s) =
     Locator (dict_get step ''selector'') # LocatorAll l # map InnerText (take 50 els)"
proof -
  define s1 where "s1 = snd (invoke (lib_loc env) (Locator (dict_get step ''selector'')) s)"
  define s2 where "s2 = snd (invoke (lib_locs env) (LocatorAll l) s1)"
  have w1: "world s1 = w1" and t1: "trace s1 = trace s @ [(Locator (dict_get step ''selector''), None)]"
    using l by (simp_all add: s1_def outcome_def)
  have t2: "trace s2 = trace s @ [(Locator (dict_get step ''selector''), None), (LocatorAll l, None)]"
    using els w1 t1 by (simp add: s2_def outcome_def)
  from collect_texts_trace [of env "take 50 els" "[]" s2] obtain ev
    where ev: "trace (snd (collect_texts env (take 50 els) [] s2)) = trace s2 @ ev"
      and m: "map fst ev = map InnerText (take 50 els)"
    by blast
  have "snd (try_body env out i step s) = snd (collect_texts env (take 50 els) [] s2)"
    unfolding try_body_list_elements [OF a]
    using l els w1 by (simp add: snd_and_then fst_and_then case_prod_beta s1_def s2_def)
  with ev t2 m show ?thesis
    by (simp add: step_events_def)
qed

text \<open>
  Claim C4 as stated fails: on a page where the selector matches three elements, the
  recognized action \<^verbatim>\<open>list_elements\<close> invokes five operations of the library
  (\<^verbatim>\<open>locator\<close>, \<^verbatim>\<open>all\<close> and one \<^verbatim>\<open>inner_text\<close> for each element).
\<close>

theorem list_elements_calls_counterexample:
  "dict_get [(''action'', PStr ''list_elements''), (''selector'', PStr ''li'')] ''action''
     \<in> PStr ` set recognized_actions \<and>
   map fst (step_events test_env ''out'' 0
      [(''action'', PStr ''list_elements''), (''selector'', PStr ''li'')] test_state) =
     [Locator (PStr ''li''), LocatorAll 0, InnerText 1, InnerText 2, InnerText 3]"
  by (simp add: run_defs test_defs list_defs recognized_actions_def)

text \<open>
  Claim C4, as amended. Processing a step invokes exactly one operation of the library
  when its action is one of \<^verbatim>\<open>click\<close>, \<^verbatim>\<open>fill\<close>, \<^verbatim>\<open>type\<close>, \<^verbatim>\<open>hover\<close>, \<^verbatim>\<open>press\<close>,
  \<^verbatim>\<open>select\<close>, \<^verbatim>\<open>check\<close>, \<^verbatim>\<open>uncheck\<close>, \<^verbatim>\<open>wait_selector\<close>, \<^verbatim>\<open>wait_url\<close>, \<^verbatim>\<open>evaluate\<close>,
  \<^verbatim>\<open>go_back\<close>, \<^verbatim>\<open>go_forward\<close>, \<^verbatim>\<open>reload\<close>, \<^verbatim>\<open>focus\<close>, \<^verbatim>\<open>drag\<close>, \<^verbatim>\<open>upload_file\<close>,
  \<^verbatim>\<open>get_url\<close>, \<^verbatim>\<open>get_title\<close>. For \<^verbatim>\<open>screenshot\<close> and \<^verbatim>\<open>wait\<close> it invokes one operation,
  or none when building the argument raises (joining the path, \<^verbatim>\<open>int(value)\<close>). For
  \<^verbatim>\<open>get_text\<close>, \<^verbatim>\<open>get_attribute\<close> and \<^verbatim>\<open>get_value\<close> it invokes between one and three
  (\<^verbatim>\<open>locator\<close>, \<^verbatim>\<open>first\<close>, the read), for \<^verbatim>\<open>scroll\<close> and \<^verbatim>\<open>blur\<close> one or two, and for
  \<^verbatim>\<open>list_elements\<close> between one and 52 (\<^verbatim>\<open>locator\<close>, \<^verbatim>\<open>all\<close>, and one \<^verbatim>\<open>inner_text\<close>
  for each of the first 50 elements).
\<close>

theorem operations_per_step:
  "(dict_get step ''action'' \<in> PStr ` set single_call_actions \<longrightarrow>
      length (step_events env out i step s) = 1) \<and>
   (dict_get step ''action'' = PStr ''screenshot'' \<longrightarrow>
      map fst (step_events env out i step s) =
        (case path_join env out
                (if truthy (dict_get step ''filename'') then dict_get step ''filename''
                 else PStr (''screenshot-'' @ str_nat i @ ''.png'')) of
           Inl e \<Rightarrow> []
         | Inr path \<Rightarrow> [Screenshot path])) \<and>
   (dict_get step ''action'' = PStr ''wait'' \<longrightarrow>
      map fst (step_events env out i step s) =
        (case (if truthy (dict_get step ''value'') then py_int env (dict_get step ''value'')
               else Inr 1000) of
           Inl e \<Rightarrow> []
         | Inr ms \<Rightarrow> [WaitForTimeout ms])) \<and>
   (dict_get step ''action'' \<in> {PStr ''get_text'', PStr ''get_attribute'', PStr ''get_value''}
      \<longrightarrow> 1 \<le> length (step_events env out i step s) \<and>
          length (step_events env out i step s) \<le> 3) \<and>
   (dict_get step ''action'' \<in> {PStr ''scroll'', PStr ''blur''}
      \<longrightarrow> 1 \<le> length (step_events env out i step s) \<and>
          length (step_events env out i step s) \<le> 2) \<and>
   (dict_get step ''action'' = PStr ''list_elements''
      \<longrightarrow> 1 \<le> length (step_events env out i step s) \<and>
          length (step_events env out i step s) \<le> 52)"
proof (intro conjI impI)
  assume "dict_get step ''action'' \<in> PStr ` set single_call_actions"
  then have "call_bounds (dict_get step ''action'') = (1, 1)"
    by (simp add: call_bounds_def)
  with step_events_count [of step env out i s]
  show "length (step_events env out i step s) = 1" by simp
next
  assume "dict_get step ''action'' = PStr ''screenshot''"
  then show "map fst (step_events env out i step s) =
        (case path_join env out
                (if truthy (dict_get step ''filename'') then dict_get step ''filename''
                 else PStr (''screenshot-'' @ str_nat i @ ''.png'')) of
           Inl e \<Rightarrow> []
         | Inr path \<Rightarrow> [Screenshot path])"
    by (rule screenshot_events)
next
  assume "dict_get step ''action'' = PStr ''wait''"
  then show "map fst (step_events env out i step s) =
        (case (if truthy (dict_get step ''value'') then py_int env (dict_get step ''value'')
               else Inr 1000) of
           Inl e \<Rightarrow> []
         | Inr ms \<Rightarrow> [WaitForTimeout ms])"
    by (rule wait_events)
next
  assume "dict_get step ''action'' \<in> {PStr ''get_text'', PStr ''get_attribute'', PStr ''get_value''}"
  then have b: "call_bounds (dict_get step ''action'') = (1, 3)"
    by (auto simp: call_bounds_def single_call_actions_def)
  with step_events_count [of step env out i s]
  show "1 \<le> length (step_events env out i step s)"
    and "length (step_events env out i step s) \<le> 3" by simp_all
next
  assume "dict_get step ''action'' \<in> {PStr ''scroll'', PStr ''blur''}"
  then have b: "call_bounds (dict_get step ''action'') = (1, 2)"
    by (auto simp: call_bounds_def single_call_actions_def)
  with step_events_count [of step env out i s]
  show "1 \<le> length (step_events env out i step s)"
    and "length (step_events env out i step s) \<le> 2" by simp_all
next
  assume "dict_get step ''action'' = PStr ''list_elements''"
  then have b: "call_bounds (dict_get step ''action'') = (1, 52)"
    by (simp add: call_bounds_def single_call_actions_def)
  with step_events_count [of step env out i s]
  show "1 \<le> length (step_events env out i step s)"
    and "length (step_events env out i step s) \<le> 52" by simp_all
qed

theorem operations_per_step_witness:
  "dict_get [(''action'', PStr ''click''), (''selector'', PStr ''#missing'')] ''action''
     \<in> PStr ` set single_call_actions \<and>
   length (step_events test_env ''out'' 0
     [(''action'', PStr ''click''), (''selector'', PStr ''#missing'')] test_state) = 1 \<and>
   dict_get [(''action'', PStr ''wait''), (''value'', PStr ''soon'')] ''action'' = PStr ''wait'' \<and>
   map fst (step_events test_env ''out'' 1
     [(''action'', PStr ''wait''), (''value'', PStr ''soon'')] test_state) = [] \<and>
   dict_get [(''action'', PStr ''wait''), (''value'', PInt 250)] ''action'' = PStr ''wait'' \<and>
   map fst (step_events test_env ''out'' 2
     [(''action'', PStr ''wait''), (''value'', PInt 250)] test_state) = [WaitForTimeout 250] \<and>
   dict_get [(''action'', PStr ''list_elements''), (''selector'', PStr ''li.many'')] ''action''
     = PStr ''list_elements'' \<and>
   length (step_events test_env ''out'' 3
     [(''action'', PStr ''list_elements''), (''selector'', PStr ''li.many'')] test_state) \<le> 52"
proof -
  let ?click = "[(''action'', PStr ''click''), (''selector'', PStr ''#missing'')]"
  let ?soon = "[(''action'', PStr ''wait''), (''value'', PStr ''soon'')]"
  let ?wait = "[(''action'', PStr ''wait''), (''value'', PInt 250)]"
  let ?many = "[(''action'', PStr ''list_elements''), (''selector'', PStr ''li.many'')]"
  have a1: "dict_get ?click ''action'' \<in> PStr ` set single_call_actions"
    by (simp add: dict_get_def single_call_actions_def)
  have a2: "dict_get ?soon ''action'' = PStr ''wait''"
    and a3: "dict_get ?wait ''action'' = PStr ''wait''"
    and a4: "dict_get ?many ''action'' = PStr ''list_elements''"
    by (simp_all add: dict_get_def)
  from operations_per_step [of ?click test_env "''out''" 0 test_state] a1
  have c1: "length (step_events test_env ''out'' 0 ?click test_state) = 1"
    by blast
  from operations_per_step [of ?soon test_env "''out''" 1 test_state] a2
  have "map fst (step_events test_env ''out'' 1 ?soon test_state) =
        (case (if truthy (dict_get ?soon ''value'') then py_int test_env (dict_get ?soon ''value'')
               else Inr 1000) of
           Inl e \<Rightarrow> []
         | Inr ms \<Rightarrow> [WaitForTimeout ms])"
    by blast
  then have c2: "map fst (step_events test_env ''out'' 1 ?soon test_state) = []"
    by (simp add: dict_get_def test_env_def test_int_def)
  from operations_per_step [of ?wait test_env "''out''" 2 test_state] a3
  have "map fst (step_events test_env ''out'' 2 ?wait test_state) =
        (case (if truthy (dict_get ?wait ''value'') then py_int test_env (dict_get ?wait ''value'')
               else Inr 1000) of
           Inl e \<Rightarrow> []
         | Inr ms \<Rightarrow> [WaitForTimeout ms])"
    by blast
  then have c3: "map fst (step_events test_env ''out'' 2 ?wait test_state) = [WaitForTimeout 250]"
    by (simp add: dict_get_def test_env_def test_int_def)
  from operations_per_step [of ?many test_env "''out''" 3 test_state] a4
  have c4: "length (step_events test_env ''out'' 3 ?many test_state) \<le> 52"
    by blast
  from a1 a2 a3 a4 c1 c2 c3 c4 show ?thesis by blast
qed

lemma call_bounds_other:
  "a \<noteq> PStr ''list_elements'' \<Longrightarrow> snd (call_bounds a) \<le> 3"
  by (simp add: call_bounds_def)

lemma unrepeated_none: "unrepeated s (r, s)"
  by (simp add: unrepeated_def)

lemma unrepeated_call: "unrepeated s (returning (invoke f c s) r)"
  by (simp add: unrepeated_def)

lemma unrepeated_read: "unrepeated s (and_then (invoke f c s) (\<lambda>x s1. (Inr (g x), s1)))"
  by (simp add: unrepeated_def snd_and_then split: sum.splits)

lemma unrepeated_guarded:
  "unrepeated s (case r of Inl e \<Rightarrow> (Inl e, s)
                 | Inr p \<Rightarrow> returning (invoke f (c p) s) (g p))"
  by (cases r) (simp_all add: unrepeated_def)

lemma unrepeated_chain2:
  "(\<And>a. c1 \<noteq> c2 a) \<Longrightarrow>
   unrepeated s (and_then (invoke f1 c1 s) (\<lambda>a s1. returning (invoke f2 (c2 a) s1) r))"
  by (simp add: unrepeated_def snd_and_then split: sum.splits)

lemma unrepeated_chain3:
  "(\<And>a. c1 \<noteq> c2 a) \<Longrightarrow> (\<And>b. c1 \<noteq> c3 b) \<Longrightarrow> (\<And>a b. c2 a \<noteq> c3 b) \<Longrightarrow>
   unrepeated s (and_then (invoke f1 c1 s) (\<lambda>a s1.
     and_then (invoke f2 (c2 a) s1) (\<lambda>b s2.
     and_then (invoke f3 (c3 b) s2) (\<lambda>x s3. (Inr (g x), s3)))))"
  by (simp add: unrepeated_def snd_and_then fst_and_then split: sum.splits)

lemma unrepeated_if:
  "(c \<Longrightarrow> unrepeated s x) \<Longrightarrow> (\<not> c \<Longrightarrow> unrepeated s y) \<Longrightarrow>
   unrepeated s (if c then x else y)"
  by simp

lemma try_body_unrepeated:
  assumes "dict_get step ''action'' \<noteq> PStr ''list_elements''"
  shows "unrepeated s (try_body env out i step s)"
  using assms unfolding try_body_def Let_def
  by (intro unrepeated_if)
     (simp_all add: unrepeated_none unrepeated_call unrepeated_read unrepeated_guarded
        unrepeated_chain2 unrepeated_chain3)

lemma step_events_distinct:
  assumes "dict_get step ''action'' \<noteq> PStr ''list_elements''"
  shows "distinct (map fst (step_events env out i step s))"
  using try_body_unrepeated [OF assms, of s env out i]
  by (auto simp: unrepeated_def step_events_def)

text \<open>
  Claim C7. Within one pass over the action list every step is processed once, and while
  a step is processed no operation of the library is attempted again: an operation that
  raises is the last one invoked for its step (so nothing is retried after a failure), a
  step other than \<^verbatim>\<open>list_elements\<close> invokes at most three operations, no two of them the
  same, and
  \<^verbatim>\<open>list_elements\<close> invokes \<^verbatim>\<open>locator\<close>, \<^verbatim>\<open>all\<close> and then \<^verbatim>\<open>inner_text\<close> exactly once on
  each of the first 50 elements, whether or not a read raises. The operations invoked
  during the pass are those of step 0, then those of step 1, and so on.
\<close>

theorem no_operation_retried:
  "(\<forall>j<length (step_events env out i step s). \<forall>e.
      snd (step_events env out i step s ! j) = Some e \<longrightarrow>
      \<not> (dict_get step ''action'' = PStr ''list_elements'' \<and>
         is_inner_text (fst (step_events env out i step s ! j))) \<longrightarrow>
      Suc j = length (step_events env out i step s)) \<and>
   (dict_get step ''action'' \<noteq> PStr ''list_elements'' \<longrightarrow>
      length (step_events env out i step s) \<le> 3 \<and>
      distinct (map fst (step_events env out i step s))) \<and>
   (dict_get step ''action'' = PStr ''list_elements'' \<longrightarrow>
      (\<forall>l w1 els w2.
         lib_loc env (Locator (dict_get step ''selector'')) (world s) = (Inr l, w1) \<longrightarrow>
         lib_locs env (LocatorAll l) w1 = (Inr els, w2) \<longrightarrow>
         map fst (step_events env out i step s) =
           Locator (dict_get step ''selector'') # LocatorAll l #
             map InnerText (take 50 els))) \<and>
   trace (snd (page_action env out (action_list steps) s)) =
     trace s @ concat (map (\<lambda>k. step_events env out k (steps ! k)
              (state_before env out steps k s)) [0..<length steps])"
proof (intro conjI allI impI)
  fix j e
  assume "j < length (step_events env out i step s)"
    and "snd (step_events env out i step s ! j) = Some e"
    and "\<not> (dict_get step ''action'' = PStr ''list_elements'' \<and>
         is_inner_text (fst (step_events env out i step s ! j)))"
  then show "Suc j = length (step_events env out i step s)"
    using step_failure_last [of j env out i step s e] by blast
next
  assume "dict_get step ''action'' \<noteq> PStr ''list_elements''"
  then have "snd (call_bounds (dict_get step ''action'')) \<le> 3"
    by (rule call_bounds_other)
  with step_events_count [of step env out i s]
  show "length (step_events env out i step s) \<le> 3" by simp
next
  assume "dict_get step ''action'' \<noteq> PStr ''list_elements''"
  then show "distinct (map fst (step_events env out i step s))"
    by (rule step_events_distinct)
next
  fix l w1 els w2
  assume "dict_get step ''action'' = PStr ''list_elements''"
    and "lib_loc env (Locator (dict_get step ''selector'')) (world s) = (Inr l, w1)"
    and "lib_locs env (LocatorAll l) w1 = (Inr els, w2)"
  then show "map fst (step_events env out i step s) =
           Locator (dict_get step ''selector'') # LocatorAll l #
             map InnerText (take 50 els)"
    by (rule list_elements_events)
next
  show "trace (snd (page_action env out (action_list steps) s)) =
     trace s @ concat (map (\<lambda>k. step_events env out k (steps ! k)
              (state_before env out steps k s)) [0..<length steps])"
    by (rule trace_page_action)
qed

theorem no_operation_retried_witness:
  "(0::nat) < length (step_events test_env ''out'' 0
      [(''action'', PStr ''get_text''), (''selector'', PStr ''#missing'')] test_state) \<and>
   snd (step_events test_env ''out'' 0
      [(''action'', PStr ''get_text''), (''selector'', PStr ''#missing'')] test_state ! 0)
     = Some ''Timeout'' \<and>
   length (step_events test_env ''out'' 0
      [(''action'', PStr ''get_text''), (''selector'', PStr ''#missing'')] test_state) = 1 \<and>
   dict_get [(''action'', PStr ''list_elements''), (''selector'', PStr ''li'')] ''action''
     = PStr ''list_elements'' \<and>
   map fst (step_events test_env ''out'' 0
      [(''action'', PStr ''list_elements''), (''selector'', PStr ''li'')] test_state) =
     [Locator (PStr ''li''), LocatorAll 0, InnerText 1, InnerText 2, InnerText 3]"
proof -
  let ?gt = "[(''action'', PStr ''get_text''), (''selector'', PStr ''#missing'')]"
  let ?le = "[(''action'', PStr ''list_elements''), (''selector'', PStr ''li'')]"
  have ev: "step_events test_env ''out'' 0 ?gt test_state
      = [(Locator (PStr ''#missing''), Some ''Timeout'')]"
    by (simp add: run_defs test_defs list_defs)
  have h1: "0 < length (step_events test_env ''out'' 0 ?gt test_state)"
    and h2: "snd (step_events test_env ''out'' 0 ?gt test_state ! 0) = Some ''Timeout''"
    and h3: "\<not> (dict_get ?gt ''action'' = PStr ''list_elements'' \<and>
         is_inner_text (fst (step_events test_env ''out'' 0 ?gt test_state ! 0)))"
    by (simp_all add: ev dict_get_def)
  from no_operation_retried [of test_env "''out''" 0 ?gt test_state "[]"] h1 h2 h3
  have "Suc 0 = length (step_events test_env ''out'' 0 ?gt test_state)"
    by blast
  then have c1: "length (step_events test_env ''out'' 0 ?gt test_state) = 1"
    by simp
  have a: "dict_get ?le ''action'' = PStr ''list_elements''"
    by (simp add: dict_get_def)
  have l: "lib_loc test_env (Locator (dict_get ?le ''selector'')) (world test_state) = (Inr 0, 1)"
    and els: "lib_locs test_env (LocatorAll 0) 1 = (Inr [1, 2, 3], 2)"
    by (simp_all add: test_defs dict_get_def)
  from no_operation_retried [of test_env "''out''" 0 ?le test_state "[]"] a l els
  have "map fst (step_events test_env ''out'' 0 ?le test_state) =
      Locator (dict_get ?le ''selector'') # LocatorAll 0 # map InnerText (take 50 [1, 2, 3])"
    by blast
  then have c2: "map fst (step_events test_env ''out'' 0 ?le test_state) =
     [Locator (PStr ''li''), LocatorAll 0, InnerText 1, InnerText 2, InnerText 3]"
    by (simp add: dict_get_def)
  from h1 h2 c1 a c2 show ?thesis by blast
qed

lemma results_effect [simp]: "results (snd (effect f s)) = results s"
  by (simp add: effect_def split: prod.splits)

lemma trace_effect [simp]: "trace (snd (effect f s)) = trace s"
  by (simp add: effect_def split: prod.splits)

lemma fetches_effect [simp]: "fetches (snd (effect f s)) = fetches s"
  by (simp add: effect_def split: prod.splits)

lemma world_effect [simp]: "world (snd (effect f s)) = snd (f (world s))"
  by (simp add: effect_def split: prod.splits)

lemma fst_effect [simp]: "fst (effect f s) = fst (f (world s))"
  by (simp add: effect_def split: prod.splits)

lemma and_then_Inr:
  "and_then m f = (Inr y, s') \<Longrightarrow> \<exists>x. fst m = Inr x \<and> f x (snd m) = (Inr y, s')"
  by (cases m; cases "fst m") (auto simp: and_then_def)

lemma map_of_dict_del_same [simp]: "map_of (dict_del k d) k = None"
  by (induction d) (auto simp: dict_del_def)

lemma map_of_dict_del_other [simp]: "k' \<noteq> k \<Longrightarrow> map_of (dict_del k d) k' = map_of d k'"
  by (induction d) (auto simp: dict_del_def)

lemma map_of_overwrite:
  "map_of (map (\<lambda>kv. if fst kv = k then (k, v) else kv) d) k' =
     (if k' = k then (if k \<in> fst ` set d then Some v else None) else map_of d k')"
  by (induction d) force+

lemma map_of_absent: "k \<notin> fst ` set d \<Longrightarrow> map_of d k = None"
  by (simp add: map_of_eq_None_iff)

lemma map_of_dict_set_same [simp]: "map_of (dict_set k v d) k = Some v"
  by (simp add: dict_set_def map_of_overwrite map_add_def map_of_absent)

lemma map_of_dict_set_other [simp]: "k' \<noteq> k \<Longrightarrow> map_of (dict_set k v d) k' = map_of d k'"
  by (simp add: dict_set_def map_of_overwrite map_add_def split: option.splits)

lemma fetch_kwargs_fields:
  "map_of (fetch_kwargs h t n rc ud) ''headless'' = Some (Value h) \<and>
   map_of (fetch_kwargs h t n rc ud) ''page_action'' = Some PageAction \<and>
   map_of (fetch_kwargs h t n rc ud) ''timeout'' = Some (Value t) \<and>
   map_of (fetch_kwargs h t n rc ud) ''network_idle'' = Some (Value n)"
  by (simp add: fetch_kwargs_def Let_def)

text \<open>What a successful \<^verbatim>\<open>execute\<close> went through.\<close>

lemma execute_Inr:
  assumes "execute env (PDict cfg) s = (Inr result, s')"
  obtains url d response where
    "map_of cfg ''url'' = Some url"
    and "make_path env (dict_get_default cfg ''outputDir'' (PStr ''.'')) = Inr d"
    and "fst (mkdir env d (world s)) = Inr ()"
    and "fetch_response env (dict_get_default cfg ''method'' (PStr ''stealthy-fetch'')) url
           (fetch_kwargs (dict_get_default cfg ''headless'' (PBool True))
              (dict_get_default cfg ''timeout'' (PInt 45000))
              (dict_get_default cfg ''networkIdle'' (PBool True))
              (dict_get_default cfg ''realChrome'' (PBool False))
              (dict_get cfg ''userDataDir''))
           (dict_get_default cfg ''timeout'' (PInt 45000))
           (dict_get_default cfg ''solveCloudflare'' (PBool False)) d
           (dict_get_default cfg ''actions'' (PList []))
           (create_page_action (snd (effect (mkdir env d) s))) = (Inr response, s')"
    and "result = [(''url'', url),
                (''finalUrl'', case resp_url response of Some u \<Rightarrow> u | None \<Rightarrow> url),
                (''status'', resp_status response),
                (''method'', dict_get_default cfg ''method'' (PStr ''stealthy-fetch'')),
                (''actions'', get_results s')]"
proof -
  obtain url where url: "map_of cfg ''url'' = Some url"
    using assms by (cases "map_of cfg ''url''") (simp_all add: execute_def subscript_def)
  obtain d where d: "make_path env (dict_get_default cfg ''outputDir'' (PStr ''.'')) = Inr d"
    using assms url
    by (cases "make_path env (dict_get_default cfg ''outputDir'' (PStr ''.''))")
       (simp_all add: execute_def subscript_def Let_def)
  define fr where "fr = fetch_response env (dict_get_default cfg ''method'' (PStr ''stealthy-fetch'')) url
           (fetch_kwargs (dict_get_default cfg ''headless'' (PBool True))
              (dict_get_default cfg ''timeout'' (PInt 45000))
              (dict_get_default cfg ''networkIdle'' (PBool True))
              (dict_get_default cfg ''realChrome'' (PBool False))
              (dict_get cfg ''userDataDir''))
           (dict_get_default cfg ''timeout'' (PInt 45000))
           (dict_get_default cfg ''solveCloudflare'' (PBool False)) d
           (dict_get_default cfg ''actions'' (PList []))"
  have ex: "and_then (effect (mkdir env d) s) (\<lambda>_ s1.
     and_then (fr (create_page_action s1))
       (\<lambda>response s3.
          (Inr [(''url'', url),
                (''finalUrl'', case resp_url response of Some u \<Rightarrow> u | None \<Rightarrow> url),
                (''status'', resp_status response),
                (''method'', dict_get_default cfg ''method'' (PStr ''stealthy-fetch'')),
                (''actions'', get_results s3)], s3))) = (Inr result, s')"
    using assms url d by (simp add: execute_def subscript_def Let_def fr_def)
  from and_then_Inr [OF ex] obtain u where u: "fst (effect (mkdir env d) s) = Inr u"
    and rest: "and_then (fr (create_page_action (snd (effect (mkdir env d) s))))
       (\<lambda>response s3.
          (Inr [(''url'', url),
                (''finalUrl'', case resp_url response of Some u \<Rightarrow> u | None \<Rightarrow> url),
                (''status'', resp_status response),
                (''method'', dict_get_default cfg ''method'' (PStr ''stealthy-fetch'')),
                (''actions'', get_results s3)], s3)) = (Inr result, s')"
    by blast
  from and_then_Inr [OF rest] obtain response
    where r1: "fst (fr (create_page_action (snd (effect (mkdir env d) s)))) = Inr response"
      and r2: "(Inr [(''url'', url),
                (''finalUrl'', case resp_url response of Some u \<Rightarrow> u | None \<Rightarrow> url),
                (''status'', resp_status response),
                (''method'', dict_get_default cfg ''method'' (PStr ''stealthy-fetch'')),
                (''actions'', get_results (snd (fr (create_page_action
                     (snd (effect (mkdir env d) s))))))],
               snd (fr (create_page_action (snd (effect (mkdir env d) s)))))
             = (Inr result, s')"
    by blast
  from r2 have s': "s' = snd (fr (create_page_action (snd (effect (mkdir env d) s))))"
    and res: "result = [(''url'', url),
                (''finalUrl'', case resp_url response of Some u \<Rightarrow> u | None \<Rightarrow> url),
                (''status'', resp_status response),
                (''method'', dict_get_default cfg ''method'' (PStr ''stealthy-fetch'')),
                (''actions'', get_results s')]"
    by auto
  from r1 s' have "fr (create_page_action (snd (effect (mkdir env d) s))) = (Inr response, s')"
    by (simp add: prod_eq_iff)
  with url d u res that show thesis
    unfolding fr_def by simp
qed

lemma results_page_action_any:
  "results (snd (page_action env out (action_list steps) s)) =
     results s @ map (\<lambda>k. step_record env out k (steps ! k)
              (state_before env out steps k s)) [0..<length steps]"
  by (simp add: page_action_typed results_page_action_from state_before_def)

lemma fetch_response_other:
  assumes "method \<noteq> PStr ''stealthy-fetch''" and "method \<noteq> PStr ''fetch''"
  shows "trace (snd (fetch_response env method url kw timeout sc d actions s)) = trace s \<and>
     results (snd (fetch_response env method url kw timeout sc d actions s)) = results s \<and>
     (\<forall>response. fst (fetch_response env method url kw timeout sc d actions s) = Inr response
        \<longrightarrow> (\<exists>t. py_floordiv timeout 1000 = Inr t \<and>
              fetches (snd (fetch_response env method url kw timeout sc d actions s)) =
                fetches s @ [(Fetcher, url, dict_set ''timeout'' (Value t)
                   (dict_del ''network_idle'' (dict_del ''page_action'' kw)))] \<and>
              fst (fetcher_get env url (dict_set ''timeout'' (Value t)
                   (dict_del ''network_idle'' (dict_del ''page_action'' kw))) (world s))
                = Inr response))"
  using assms
  by (cases "py_floordiv timeout 1000") (simp_all add: fetch_response_def Let_def)

lemma browser_fetch_results:
  assumes "browser_fetch env f url kw d (action_list steps) s = (Inr response, s')"
  shows "results s' = results s @ map (\<lambda>k. step_record env d k (steps ! k)
              (state_before env d steps k
                 (snd (effect (fetch_begin env f url kw)
                    (s\<lparr>fetches := fetches s @ [(f, url, kw)]\<rparr>))))) [0..<length steps]"
proof -
  define s0 where "s0 = s\<lparr>fetches := fetches s @ [(f, url, kw)]\<rparr>"
  define s1 where "s1 = snd (effect (fetch_begin env f url kw) s0)"
  from assms have "and_then (effect (fetch_begin env f url kw) s0)
       (\<lambda>_ s1. case page_action env d (action_list steps) s1 of
                  (raised, s2) \<Rightarrow> effect (fetch_end env f url kw raised) s2)
       = (Inr response, s')"
    by (simp add: browser_fetch_def s0_def)
  from and_then_Inr [OF this]
  have "(case page_action env d (action_list steps) s1 of
                  (raised, s2) \<Rightarrow> effect (fetch_end env f url kw raised) s2)
         = (Inr response, s')"
    by (auto simp: s1_def)
  then have "s' = snd (effect (fetch_end env f url kw
                 (fst (page_action env d (action_list steps) s1)))
               (snd (page_action env d (action_list steps) s1)))"
    by (simp add: case_prod_beta prod_eq_iff)
  then have "results s' = results (snd (page_action env d (action_list steps) s1))"
    by simp
  also have "\<dots> = results s1 @ map (\<lambda>k. step_record env d k (steps ! k)
              (state_before env d steps k s1)) [0..<length steps]"
    by (rule results_page_action_any)
  also have "results s1 = results s"
    by (simp add: s1_def s0_def)
  finally show ?thesis
    by (simp add: s1_def s0_def)
qed

lemma fetch_response_browser:
  assumes "method = PStr ''stealthy-fetch'' \<or> method = PStr ''fetch''"
    and "fetch_response env method url kw timeout sc d (action_list steps) s = (Inr response, s')"
  shows "length (results s') = length (results s) + length steps \<and>
     (\<forall>i<length steps.
        map_of (results s' ! (length (results s) + i)) ''step'' = Some (PInt (int i)) \<and>
        map_of (results s' ! (length (results s) + i)) ''action''
          = Some (dict_get (steps ! i) ''action''))"
proof -
  from assms obtain f kw' where
    "browser_fetch env f url kw' d (action_list steps) s = (Inr response, s')"
    by (auto simp: fetch_response_def split: if_splits)
  from browser_fetch_results [OF this] show ?thesis
    by (simp add: nth_append step_record_fields)
qed

lemmas exec_defs =
  execute_def subscript_def make_path_def fetch_response_def browser_fetch_def
  fetch_kwargs_def effect_def get_results_def dict_set_def dict_del_def py_floordiv_def



text \<open>
  Claim C2. For every config on which \<^verbatim>\<open>execute\<close> succeeds, the dict returned has the keys
  \<^verbatim>\<open>'url'\<close>, \<^verbatim>\<open>'finalUrl'\<close>, \<^verbatim>\<open>'status'\<close>, \<^verbatim>\<open>'method'\<close> and \<^verbatim>\<open>'actions'\<close>: the requested
  url, the url of the response that the fetch returned (the requested url when the
  response has none), its status, the method, and the list of the per-step results, which
  has exactly one record per action of the input list, the \<open>i\<close>-th for the \<open>i\<close>-th action.
  The input list is a list of dicts, as declared. The library is the parameter of the
  model; the one fact about it that the claim needs is that its \<^verbatim>\<open>Fetcher.get\<close> raises
  when it is handed the keyword \<^verbatim>\<open>headless\<close>, which \<^verbatim>\<open>execute\<close> never removes: with such
  a library \<^verbatim>\<open>execute\<close> succeeds only through \<^verbatim>\<open>'stealthy-fetch'\<close> or \<^verbatim>\<open>'fetch'\<close>, where
  the \<^verbatim>\<open>page_action\<close> runs.
\<close>

theorem execute_result:
  assumes "execute env (PDict cfg) s = (Inr result, s')"
    and "dict_get_default cfg ''actions'' (PList []) = action_list steps"
    and "\<forall>url kw w. map_of kw ''headless'' \<noteq> None \<longrightarrow>
           (\<exists>e. fst (fetcher_get env url kw w) = Inl e)"
  shows "map fst result = [''url'', ''finalUrl'', ''status'', ''method'', ''actions''] \<and>
     map_of result ''url'' = map_of cfg ''url'' \<and>
     map_of result ''method'' = Some (dict_get_default cfg ''method'' (PStr ''stealthy-fetch'')) \<and>
     map_of result ''actions'' = Some (PList (map PDict (results s'))) \<and>
     (\<exists>d response.
        make_path env (dict_get_default cfg ''outputDir'' (PStr ''.'')) = Inr d \<and>
        fetch_response env (dict_get_default cfg ''method'' (PStr ''stealthy-fetch''))
           (dict_get cfg ''url'')
           (fetch_kwargs (dict_get_default cfg ''headless'' (PBool True))
              (dict_get_default cfg ''timeout'' (PInt 45000))
              (dict_get_default cfg ''networkIdle'' (PBool True))
              (dict_get_default cfg ''realChrome'' (PBool False))
              (dict_get cfg ''userDataDir''))
           (dict_get_default cfg ''timeout'' (PInt 45000))
           (dict_get_default cfg ''solveCloudflare'' (PBool False)) d
           (dict_get_default cfg ''actions'' (PList []))
           (create_page_action (snd (effect (mkdir env d) s))) = (Inr response, s') \<and>
        map_of result ''finalUrl'' =
          Some (case resp_url response of Some u \<Rightarrow> u | None \<Rightarrow> dict_get cfg ''url'') \<and>
        map_of result ''status'' = Some (resp_status response)) \<and>
     length (results s') = length steps \<and>
     (\<forall>i<length steps.
        map_of (results s' ! i) ''step'' = Some (PInt (int i)) \<and>
        map_of (results s' ! i) ''action'' = Some (dict_get (steps ! i) ''action'')) \<and>
     dict_get_default cfg ''method'' (PStr ''stealthy-fetch'')
       \<in> {PStr ''stealthy-fetch'', PStr ''fetch''}"
proof -
  let ?meth = "dict_get_default cfg ''method'' (PStr ''stealthy-fetch'')"
  let ?timeout = "dict_get_default cfg ''timeout'' (PInt 45000)"
  let ?sc = "dict_get_default cfg ''solveCloudflare'' (PBool False)"
  let ?actions = "dict_get_default cfg ''actions'' (PList [])"
  let ?kw = "fetch_kwargs (dict_get_default cfg ''headless'' (PBool True)) ?timeout
              (dict_get_default cfg ''networkIdle'' (PBool True))
              (dict_get_default cfg ''realChrome'' (PBool False))
              (dict_get cfg ''userDataDir'')"
  from execute_Inr [OF assms(1)] obtain url d response where
    url: "map_of cfg ''url'' = Some url"
    and d: "make_path env (dict_get_default cfg ''outputDir'' (PStr ''.'')) = Inr d"
    and fr: "fetch_response env ?meth url ?kw ?timeout ?sc d ?actions
           (create_page_action (snd (effect (mkdir env d) s))) = (Inr response, s')"
    and res: "result = [(''url'', url),
                (''finalUrl'', case resp_url response of Some u \<Rightarrow> u | None \<Rightarrow> url),
                (''status'', resp_status response),
                (''method'', ?meth),
                (''actions'', get_results s')]"
    by blast
  let ?s2 = "create_page_action (snd (effect (mkdir env d) s))"
  have u: "dict_get cfg ''url'' = url"
    using url by (simp add: dict_get_def)
  have keys: "map fst result = [''url'', ''finalUrl'', ''status'', ''method'', ''actions'']"
    and f1: "map_of result ''url'' = map_of cfg ''url''"
    and f2: "map_of result ''method'' = Some ?meth"
    and f3: "map_of result ''actions'' = Some (PList (map PDict (results s')))"
    and f4: "map_of result ''finalUrl'' =
          Some (case resp_url response of Some u \<Rightarrow> u | None \<Rightarrow> dict_get cfg ''url'')"
    and f5: "map_of result ''status'' = Some (resp_status response)"
    using res url u by (simp_all add: get_results_def split: option.splits)
  have s2: "results ?s2 = []"
    by (simp add: create_page_action_def)
  have browser: "?meth \<in> {PStr ''stealthy-fetch'', PStr ''fetch''}"
  proof (rule ccontr)
    assume "?meth \<notin> {PStr ''stealthy-fetch'', PStr ''fetch''}"
    then have m: "?meth \<noteq> PStr ''stealthy-fetch''" "?meth \<noteq> PStr ''fetch''"
      by simp_all
    from fetch_response_other [OF m, of env url ?kw ?timeout ?sc d ?actions ?s2] fr
    obtain t where got: "fst (fetcher_get env url (dict_set ''timeout'' (Value t)
                   (dict_del ''network_idle'' (dict_del ''page_action'' ?kw))) (world ?s2))
                = Inr response"
      by auto
    have "map_of (dict_set ''timeout'' (Value t)
                   (dict_del ''network_idle'' (dict_del ''page_action'' ?kw))) ''headless''
            \<noteq> None"
      by (simp add: fetch_kwargs_fields)
    with assms(3) obtain e where "fst (fetcher_get env url (dict_set ''timeout'' (Value t)
                   (dict_del ''network_idle'' (dict_del ''page_action'' ?kw))) (world ?s2))
                = Inl e"
      by blast
    with got show False by simp
  qed
  then have m': "?meth = PStr ''stealthy-fetch'' \<or> ?meth = PStr ''fetch''"
    by simp
  from fr assms(2)
  have "fetch_response env ?meth url ?kw ?timeout ?sc d (action_list steps) ?s2
        = (Inr response, s')"
    by simp
  from fetch_response_browser [OF m' this] s2
  have recs: "length (results s') = length steps"
    "\<forall>i<length steps.
        map_of (results s' ! i) ''step'' = Some (PInt (int i)) \<and>
        map_of (results s' ! i) ''action'' = Some (dict_get (steps ! i) ''action'')"
    by simp_all
  from d fr f4 f5 have ex: "\<exists>d response.
        make_path env (dict_get_default cfg ''outputDir'' (PStr ''.'')) = Inr d \<and>
        fetch_response env ?meth (dict_get cfg ''url'') ?kw ?timeout ?sc d ?actions
           (create_page_action (snd (effect (mkdir env d) s))) = (Inr response, s') \<and>
        map_of result ''finalUrl'' =
          Some (case resp_url response of Some u \<Rightarrow> u | None \<Rightarrow> dict_get cfg ''url'') \<and>
        map_of result ''status'' = Some (resp_status response)"
    unfolding u by blast
  from keys f1 f2 f3 ex recs browser show ?thesis
    by (intro conjI)
qed

theorem execute_result_witness:
  "execute strict_env (PDict [(''url'', PStr ''http://a''), (''method'', PStr ''fetch''),
      (''actions'', PList [PDict [(''action'', PStr ''get_title'')],
                           PDict [(''action'', PStr ''click''),
                                  (''selector'', PStr ''#missing'')]])])
     test_state =
     (Inr [(''url'', PStr ''http://a''), (''finalUrl'', PStr ''http://a''),
           (''status'', PInt 200), (''method'', PStr ''fetch''),
           (''actions'', PList
              [PDict [(''step'', PInt 0), (''action'', PStr ''get_title''),
                      (''status'', PStr ''ok''), (''title'', PStr ''v'')],
               PDict [(''step'', PInt 1), (''action'', PStr ''click''),
                      (''status'', PStr ''error''), (''error'', PStr ''Timeout'')]])],
      \<lparr>world = 5, trace = [(Title, None), (Click (PStr ''#missing'') None, Some ''Timeout'')],
       fetches = [(DynamicFetcher, PStr ''http://a'',
                   [(''headless'', Value (PBool True)), (''page_action'', PageAction),
                    (''timeout'', Value (PInt 45000)),
                    (''network_idle'', Value (PBool True))])],
       results = [[(''step'', PInt 0), (''action'', PStr ''get_title''),
                   (''status'', PStr ''ok''), (''title'', PStr ''v'')],
                  [(''step'', PInt 1), (''action'', PStr ''click''),
                   (''status'', PStr ''error''), (''error'', PStr ''Timeout'')]]\<rparr>) \<and>
   dict_get_default [(''url'', PStr ''http://a''), (''method'', PStr ''fetch''),
      (''actions'', PList [PDict [(''action'', PStr ''get_title'')],
                           PDict [(''action'', PStr ''click''),
                                  (''selector'', PStr ''#missing'')]])]
      ''actions'' (PList []) =
     action_list [[(''action'', PStr ''get_title'')],
                  [(''action'', PStr ''click''), (''selector'', PStr ''#missing'')]] \<and>
   fst (fetcher_get strict_env (PStr ''http://a'') [(''headless'', Value (PBool True))] 0)
     = Inl ''got an unexpected keyword argument'' \<and>
   length (results (snd (execute strict_env (PDict [(''url'', PStr ''http://a''),
      (''method'', PStr ''fetch''),
      (''actions'', PList [PDict [(''action'', PStr ''get_title'')],
                           PDict [(''action'', PStr ''click''),
                                  (''selector'', PStr ''#missing'')]])]) test_state)))
     = length [[(''action'', PStr ''get_title'')],
               [(''action'', PStr ''click''), (''selector'', PStr ''#missing'')]]"
proof -
  let ?steps = "[[(''action'', PStr ''get_title'')],
                 [(''action'', PStr ''click''), (''selector'', PStr ''#missing'')]]"
  let ?cfg = "[(''url'', PStr ''http://a''), (''method'', PStr ''fetch''),
      (''actions'', PList [PDict [(''action'', PStr ''get_title'')],
                           PDict [(''action'', PStr ''click''),
                                  (''selector'', PStr ''#missing'')]])]"
  let ?result = "[(''url'', PStr ''http://a''), (''finalUrl'', PStr ''http://a''),
           (''status'', PInt 200), (''method'', PStr ''fetch''),
           (''actions'', PList
              [PDict [(''step'', PInt 0), (''action'', PStr ''get_title''),
                      (''status'', PStr ''ok''), (''title'', PStr ''v'')],
               PDict [(''step'', PInt 1), (''action'', PStr ''click''),
                      (''status'', PStr ''error''), (''error'', PStr ''Timeout'')]])]"
  let ?s' = "\<lparr>world = 5::nat,
       trace = [(Title :: nat libcall, None),
                (Click (PStr ''#missing'') None, Some ''Timeout'')],
       fetches = [(DynamicFetcher, PStr ''http://a'',
                   [(''headless'', Value (PBool True)), (''page_action'', PageAction),
                    (''timeout'', Value (PInt 45000)),
                    (''network_idle'', Value (PBool True))])],
       results = [[(''step'', PInt 0), (''action'', PStr ''get_title''),
                   (''status'', PStr ''ok''), (''title'', PStr ''v'')],
                  [(''step'', PInt 1), (''action'', PStr ''click''),
                   (''status'', PStr ''error''), (''error'', PStr ''Timeout'')]]\<rparr>"
  have h: "execute strict_env (PDict ?cfg) test_state = (Inr ?result, ?s')"
    by (simp add: exec_defs run_defs test_defs)
  have a: "dict_get_default ?cfg ''actions'' (PList []) = action_list ?steps"
    by (simp add: dict_get_default_def action_list_def)
  have lib: "\<forall>url kw w. map_of kw ''headless'' \<noteq> None \<longrightarrow>
      (\<exists>e. fst (fetcher_get strict_env url kw w) = Inl e)"
    by (simp add: strict_env_def strict_get_def test_env_def)
  have g: "fst (fetcher_get strict_env (PStr ''http://a'')
             [(''headless'', Value (PBool True))] 0)
     = Inl ''got an unexpected keyword argument''"
    by (simp add: strict_env_def strict_get_def test_env_def)
  note r = execute_result [OF h a lib]
  note len = r [THEN conjunct2, THEN conjunct2, THEN conjunct2, THEN conjunct2,
      THEN conjunct2, THEN conjunct1]
  from len h have c: "length (results (snd (execute strict_env (PDict ?cfg) test_state)))
      = length ?steps"
    by (simp only: snd_conv)
  show ?thesis
    by (rule conjI [OF h conjI [OF a conjI [OF g c]]])
qed

lemmas main_defs = main_def run_config_def load_config_def flags_config_def uncaught_def
  error_exit_def

text \<open>
  Claim C5 as stated fails where \<^verbatim>\<open>--config\<close> is given with an empty value: the branch
  tests the truth value of \<^verbatim>\<open>args.config\<close>, so the file is not read and the config is
  built from the flags.
\<close>

theorem empty_config_option_counterexample:
  "arg_config (test_args\<lparr>arg_config := Some '''', arg_url := Some ''http://x''\<rparr>) = Some '''' \<and>
   \<not> arg_stdin (test_args\<lparr>arg_config := Some '''', arg_url := Some ''http://x''\<rparr>) \<and>
   load_config test_env (test_args\<lparr>arg_config := Some '''', arg_url := Some ''http://x''\<rparr>)
     test_state =
     (Inr (Some (PDict [(''url'', PStr ''http://x''), (''actions'', PList []),
        (''method'', PStr ''stealthy-fetch''), (''headless'', PBool True),
        (''timeout'', PInt 45000), (''solveCloudflare'', PBool False),
        (''realChrome'', PBool False), (''networkIdle'', PBool True),
        (''outputDir'', PStr ''.''), (''userDataDir'', PNone)])), test_state) \<and>
   effect (read_file test_env '''') test_state =
     (Inl ''No such file or directory'', test_state\<lparr>world := 1\<rparr>)"
  by (simp add: main_defs effect_def test_defs)

text \<open>
  Claim C5, as amended. The configuration comes from exactly one of three sources, with
  fixed precedence: if \<^verbatim>\<open>--stdin\<close> is given, the JSON config is read from stdin; otherwise
  if \<^verbatim>\<open>--config\<close> is given with a non-empty value, it is read from that JSON file;
  otherwise if \<^verbatim>\<open>--url\<close> is given with a non-empty value, the config is built from the
  flags; otherwise the program prints the help and exits with status 1. An exception
  while the config is loaded is not caught.
\<close>

theorem config_source:
  "(arg_stdin a \<longrightarrow>
      main env a s =
        (case effect (read_stdin env) s of
           (Inl e, s1) \<Rightarrow> (uncaught e, s1)
         | (Inr config, s1) \<Rightarrow> run_config env config s1)) \<and>
   (\<not> arg_stdin a \<and> nonempty (arg_config a) \<longrightarrow>
      main env a s =
        (case effect (read_file env (the_str (arg_config a))) s of
           (Inl e, s1) \<Rightarrow> (uncaught e, s1)
         | (Inr config, s1) \<Rightarrow> run_config env config s1)) \<and>
   (\<not> arg_stdin a \<and> \<not> nonempty (arg_config a) \<and> nonempty (arg_url a) \<longrightarrow>
      main env a s =
        (case (if nonempty (arg_actions a) then json_loads env (the_str (arg_actions a))
               else Inr (PList [])) of
           Inl e \<Rightarrow> (uncaught e, s)
         | Inr actions \<Rightarrow>
             run_config env
               (PDict [(''url'', PStr (the_str (arg_url a))),
                       (''actions'', actions),
                       (''method'', PStr (arg_method a)),
                       (''headless'', PBool (\<not> arg_no_headless a)),
                       (''timeout'', PInt (arg_timeout a)),
                       (''solveCloudflare'', PBool (arg_solve_cloudflare a)),
                       (''realChrome'', PBool (arg_real_chrome a)),
                       (''networkIdle'', PBool (arg_network_idle a)),
                       (''outputDir'', PStr (arg_output_dir a)),
                       (''userDataDir'', opt_str (arg_user_data_dir a))]) s)) \<and>
   (\<not> arg_stdin a \<and> \<not> nonempty (arg_config a) \<and> \<not> nonempty (arg_url a) \<longrightarrow>
      main env a s = (\<lparr>stdout = [help_text env], stderr = [], ending = Exit 1\<rparr>, s))"
proof (intro conjI impI)
  assume "arg_stdin a"
  then show "main env a s =
        (case effect (read_stdin env) s of
           (Inl e, s1) \<Rightarrow> (uncaught e, s1)
         | (Inr config, s1) \<Rightarrow> run_config env config s1)"
    by (simp add: main_def load_config_def and_then_def split: prod.splits sum.splits)
next
  assume "\<not> arg_stdin a \<and> nonempty (arg_config a)"
  then show "main env a s =
        (case effect (read_file env (the_str (arg_config a))) s of
           (Inl e, s1) \<Rightarrow> (uncaught e, s1)
         | (Inr config, s1) \<Rightarrow> run_config env config s1)"
    by (simp add: main_def load_config_def and_then_def split: prod.splits sum.splits)
next
  assume h: "\<not> arg_stdin a \<and> \<not> nonempty (arg_config a) \<and> nonempty (arg_url a)"
  then have "opt_str (arg_url a) = PStr (the_str (arg_url a))"
    by (cases "arg_url a") simp_all
  with h show "main env a s =
        (case (if nonempty (arg_actions a) then json_loads env (the_str (arg_actions a))
               else Inr (PList [])) of
           Inl e \<Rightarrow> (uncaught e, s)
         | Inr actions \<Rightarrow>
             run_config env
               (PDict [(''url'', PStr (the_str (arg_url a))),
                       (''actions'', actions),
                       (''method'', PStr (arg_method a)),
                       (''headless'', PBool (\<not> arg_no_headless a)),
                       (''timeout'', PInt (arg_timeout a)),
                       (''solveCloudflare'', PBool (arg_solve_cloudflare a)),
                       (''realChrome'', PBool (arg_real_chrome a)),
                       (''networkIdle'', PBool (arg_network_idle a)),
                       (''outputDir'', PStr (arg_output_dir a)),
                       (''userDataDir'', opt_str (arg_user_data_dir a))]) s)"
    by (simp add: main_def load_config_def flags_config_def split: sum.splits)
next
  assume "\<not> arg_stdin a \<and> \<not> nonempty (arg_config a) \<and> \<not> nonempty (arg_url a)"
  then show "main env a s = (\<lparr>stdout = [help_text env], stderr = [], ending = Exit 1\<rparr>, s)"
    by (simp add: main_def load_config_def)
qed

theorem config_source_witness:
  "arg_stdin (test_args\<lparr>arg_stdin := True, arg_config := Some ''cfg.json'',
      arg_url := Some ''http://x''\<rparr>) \<and>
   main test_env (test_args\<lparr>arg_stdin := True, arg_config := Some ''cfg.json'',
      arg_url := Some ''http://x''\<rparr>) test_state =
     run_config test_env
       (PDict [(''url'', PStr ''http://a''),
               (''actions'', PList [PDict [(''action'', PStr ''get_url'')]])])
       (test_state\<lparr>world := 1\<rparr>) \<and>
   \<not> arg_stdin (test_args\<lparr>arg_config := Some ''cfg.json'', arg_url := Some ''http://x''\<rparr>) \<and>
   nonempty (arg_config (test_args\<lparr>arg_config := Some ''cfg.json'',
      arg_url := Some ''http://x''\<rparr>)) \<and>
   main test_env (test_args\<lparr>arg_config := Some ''cfg.json'', arg_url := Some ''http://x''\<rparr>)
     test_state =
     run_config test_env (PDict [(''url'', PStr ''http://b'')]) (test_state\<lparr>world := 1\<rparr>) \<and>
   \<not> nonempty (arg_config test_args) \<and> \<not> nonempty (arg_url test_args) \<and>
   main test_env test_args test_state =
     (\<lparr>stdout = [''usage''], stderr = [], ending = Exit 1\<rparr>, test_state)"
proof -
  let ?a1 = "test_args\<lparr>arg_stdin := True, arg_config := Some ''cfg.json'',
      arg_url := Some ''http://x''\<rparr>"
  let ?a2 = "test_args\<lparr>arg_config := Some ''cfg.json'', arg_url := Some ''http://x''\<rparr>"
  have h1: "arg_stdin ?a1" by simp
  have h2: "\<not> arg_stdin ?a2 \<and> nonempty (arg_config ?a2)"
    by (simp add: test_args_def)
  have h3: "\<not> arg_stdin test_args \<and> \<not> nonempty (arg_config test_args) \<and>
      \<not> nonempty (arg_url test_args)"
    by (simp add: test_args_def)
  note c1 = config_source [of ?a1 test_env test_state, THEN conjunct1, rule_format, OF h1]
  note c2 = config_source [of ?a2 test_env test_state, THEN conjunct2, THEN conjunct1,
      rule_format, OF h2]
  note c3 = config_source [of test_args test_env test_state, THEN conjunct2, THEN conjunct2,
      THEN conjunct2, rule_format, OF h3]
  have r1: "main test_env ?a1 test_state =
     run_config test_env
       (PDict [(''url'', PStr ''http://a''),
               (''actions'', PList [PDict [(''action'', PStr ''get_url'')]])])
       (test_state\<lparr>world := 1\<rparr>)"
    unfolding c1 by (simp add: effect_def test_env_def test_stdin_def test_state_def)
  have r2: "main test_env ?a2 test_state =
     run_config test_env (PDict [(''url'', PStr ''http://b'')]) (test_state\<lparr>world := 1\<rparr>)"
    unfolding c2
    by (simp add: effect_def test_env_def test_file_def test_state_def test_args_def)
  have r3: "main test_env test_args test_state =
     (\<lparr>stdout = [''usage''], stderr = [], ending = Exit 1\<rparr>, test_state)"
    unfolding c3 by (simp add: test_env_def)
  from h1 h2 h3 r1 r2 r3 show ?thesis by blast
qed

text \<open>
  Claim C6 as stated fails where \<^verbatim>\<open>execute\<close> returns and the \<^verbatim>\<open>print\<close> of its result
  raises: on a terminal that takes ASCII only, a result with the url \<^verbatim>\<open>http://caf\<close>
  followed by the code point 233 is not printed; the handler prints the error object on
  stderr and the program exits with status 1.
\<close>

theorem unprintable_result_counterexample:
  "execute test_env
     (flags_config (test_args\<lparr>arg_url := Some (''http://caf'' @ [CHR 0xE9])\<rparr>) (PList []))
     test_state =
     (Inr [(''url'', PStr (''http://caf'' @ [CHR 0xE9])),
           (''finalUrl'', PStr (''http://caf'' @ [CHR 0xE9])),
           (''status'', PInt 200), (''method'', PStr ''stealthy-fetch''),
           (''actions'', PList [])],
      \<lparr>world = 3, trace = [],
       fetches = [(StealthyFetcher, PStr (''http://caf'' @ [CHR 0xE9]),
                   [(''headless'', Value (PBool True)), (''page_action'', PageAction),
                    (''timeout'', Value (PInt 45000)),
                    (''network_idle'', Value (PBool True))])],
       results = []\<rparr>) \<and>
   main test_env (test_args\<lparr>arg_url := Some (''http://caf'' @ [CHR 0xE9])\<rparr>) test_state =
     (\<lparr>stdout = [], stderr = [''error:codec cannot encode character;''], ending = Exit 1\<rparr>,
      \<lparr>world = 4, trace = [],
       fetches = [(StealthyFetcher, PStr (''http://caf'' @ [CHR 0xE9]),
                   [(''headless'', Value (PBool True)), (''page_action'', PageAction),
                    (''timeout'', Value (PInt 45000)),
                    (''network_idle'', Value (PBool True))])],
       results = []\<rparr>)"
  by (simp add: main_defs exec_defs run_defs test_defs)

text \<open>
  Claim C6, as amended. When \<^verbatim>\<open>execute\<close> returns and the \<^verbatim>\<open>print\<close> of its result does not
  raise, \<^verbatim>\<open>main\<close> prints the result, serialized as JSON, on stdout (and nothing on stderr).
  When \<^verbatim>\<open>execute\<close> raises an exception, or the \<^verbatim>\<open>print\<close> of its result does, \<^verbatim>\<open>main\<close>
  prints the JSON object \<^verbatim>\<open>{'error': <message>}\<close> on stderr, nothing on stdout, and exits
  with status 1.
\<close>

theorem main_reports:
  assumes "load_config env a s = (Inr (Some config), s1)"
  shows "(\<forall>result s2 s3. execute env config s1 = (Inr result, s2) \<longrightarrow>
            effect (print_stdout env (json_dumps env False (PDict result))) s2 = (Inr (), s3)
            \<longrightarrow> main env a s =
              (\<lparr>stdout = [json_dumps env False (PDict result)], stderr = [],
                ending = Exit 0\<rparr>, s3)) \<and>
         (\<forall>result s2 e s3. execute env config s1 = (Inr result, s2) \<longrightarrow>
            effect (print_stdout env (json_dumps env False (PDict result))) s2 = (Inl e, s3)
            \<longrightarrow> main env a s =
              (\<lparr>stdout = [], stderr = [json_dumps env True (PDict [(''error'', PStr e)])],
                ending = Exit 1\<rparr>, s3)) \<and>
         (\<forall>e s2. execute env config s1 = (Inl e, s2) \<longrightarrow>
            main env a s =
              (\<lparr>stdout = [], stderr = [json_dumps env True (PDict [(''error'', PStr e)])],
                ending = Exit 1\<rparr>, s2))"
  using assms by (simp add: main_def run_config_def error_exit_def)

theorem main_reports_witness:
  "load_config test_env (test_args\<lparr>arg_url := Some ''http://down''\<rparr>) test_state =
     (Inr (Some (flags_config (test_args\<lparr>arg_url := Some ''http://down''\<rparr>) (PList []))),
      test_state) \<and>
   main test_env (test_args\<lparr>arg_url := Some ''http://down''\<rparr>) test_state =
     (\<lparr>stdout = [], stderr = [''error:Connection refused;''], ending = Exit 1\<rparr>,
      \<lparr>world = 2, trace = [],
       fetches = [(StealthyFetcher, PStr ''http://down'',
                   [(''headless'', Value (PBool True)), (''page_action'', PageAction),
                    (''timeout'', Value (PInt 45000)),
                    (''network_idle'', Value (PBool True))])],
       results = []\<rparr>) \<and>
   load_config test_env (test_args\<lparr>arg_url := Some ''http://x''\<rparr>) test_state =
     (Inr (Some (flags_config (test_args\<lparr>arg_url := Some ''http://x''\<rparr>) (PList []))),
      test_state) \<and>
   main test_env (test_args\<lparr>arg_url := Some ''http://x''\<rparr>) test_state =
     (\<lparr>stdout = [''url:http://x;finalUrl:http://x;status:_;method:stealthy-fetch;actions:;''],
       stderr = [], ending = Exit 0\<rparr>,
      \<lparr>world = 4, trace = [],
       fetches = [(StealthyFetcher, PStr ''http://x'',
                   [(''headless'', Value (PBool True)), (''page_action'', PageAction),
                    (''timeout'', Value (PInt 45000)),
                    (''network_idle'', Value (PBool True))])],
       results = []\<rparr>) \<and>
   load_config test_env (test_args\<lparr>arg_url := Some (''http://caf'' @ [CHR 0xE9])\<rparr>)
     test_state =
     (Inr (Some (flags_config (test_args\<lparr>arg_url := Some (''http://caf'' @ [CHR 0xE9])\<rparr>)
        (PList []))), test_state) \<and>
   main test_env (test_args\<lparr>arg_url := Some (''http://caf'' @ [CHR 0xE9])\<rparr>) test_state =
     (\<lparr>stdout = [], stderr = [''error:codec cannot encode character;''], ending = Exit 1\<rparr>,
      \<lparr>world = 4, trace = [],
       fetches = [(StealthyFetcher, PStr (''http://caf'' @ [CHR 0xE9]),
                   [(''headless'', Value (PBool True)), (''page_action'', PageAction),
                    (''timeout'', Value (PInt 45000)),
                    (''network_idle'', Value (PBool True))])],
       results = []\<rparr>)"
proof -
  let ?down = "test_args\<lparr>arg_url := Some ''http://down''\<rparr>"
  let ?up = "test_args\<lparr>arg_url := Some ''http://x''\<rparr>"
  let ?fetched = "\<lambda>url. [(StealthyFetcher, PStr url,
                   [(''headless'', Value (PBool True)), (''page_action'', PageAction),
                    (''timeout'', Value (PInt 45000)),
                    (''network_idle'', Value (PBool True))])]"
  let ?sd = "\<lparr>world = 2::nat, trace = [] :: (nat libcall \<times> exn option) list,
       fetches = ?fetched ''http://down'', results = []\<rparr>"
  let ?su = "\<lparr>world = 3::nat, trace = [] :: (nat libcall \<times> exn option) list,
       fetches = ?fetched ''http://x'', results = []\<rparr>"
  let ?sp = "\<lparr>world = 4::nat, trace = [] :: (nat libcall \<times> exn option) list,
       fetches = ?fetched ''http://x'', results = []\<rparr>"
  let ?result = "[(''url'', PStr ''http://x''), (''finalUrl'', PStr ''http://x''),
            (''status'', PInt 200), (''method'', PStr ''stealthy-fetch''),
            (''actions'', PList [])]"
  let ?cafe = "test_args\<lparr>arg_url := Some (''http://caf'' @ [CHR 0xE9])\<rparr>"
  let ?sc = "\<lparr>world = 3::nat, trace = [] :: (nat libcall \<times> exn option) list,
       fetches = ?fetched (''http://caf'' @ [CHR 0xE9]), results = []\<rparr>"
  let ?sq = "\<lparr>world = 4::nat, trace = [] :: (nat libcall \<times> exn option) list,
       fetches = ?fetched (''http://caf'' @ [CHR 0xE9]), results = []\<rparr>"
  let ?rcafe = "[(''url'', PStr (''http://caf'' @ [CHR 0xE9])),
            (''finalUrl'', PStr (''http://caf'' @ [CHR 0xE9])),
            (''status'', PInt 200), (''method'', PStr ''stealthy-fetch''),
            (''actions'', PList [])]"
  have l3: "load_config test_env ?cafe test_state =
     (Inr (Some (flags_config ?cafe (PList []))), test_state)"
    by (simp add: load_config_def test_args_def)
  have e3: "execute test_env (flags_config ?cafe (PList [])) test_state = (Inr ?rcafe, ?sc)"
    by (simp add: flags_config_def exec_defs run_defs test_defs)
  have p3: "effect (print_stdout test_env (json_dumps test_env False (PDict ?rcafe))) ?sc
      = (Inl ''codec cannot encode character'', ?sq)"
    by (simp add: effect_def test_defs)
  note m3 = main_reports [OF l3, THEN conjunct2, THEN conjunct1, rule_format, OF e3 p3]
  have r3: "main test_env ?cafe test_state =
     (\<lparr>stdout = [], stderr = [''error:codec cannot encode character;''], ending = Exit 1\<rparr>,
      ?sq)"
    unfolding m3 by (simp add: test_defs)
  have l1: "load_config test_env ?down test_state =
     (Inr (Some (flags_config ?down (PList []))), test_state)"
    and l2: "load_config test_env ?up test_state =
     (Inr (Some (flags_config ?up (PList []))), test_state)"
    by (simp_all add: load_config_def test_args_def)
  have e1: "execute test_env (flags_config ?down (PList [])) test_state =
      (Inl ''Connection refused'', ?sd)"
    by (simp add: flags_config_def exec_defs run_defs test_defs)
  have e2: "execute test_env (flags_config ?up (PList [])) test_state = (Inr ?result, ?su)"
    by (simp add: flags_config_def exec_defs run_defs test_defs)
  have p2: "effect (print_stdout test_env (json_dumps test_env False (PDict ?result))) ?su
      = (Inr (), ?sp)"
    by (simp add: effect_def test_defs)
  note m1 = main_reports [OF l1, THEN conjunct2, THEN conjunct2, rule_format, OF e1]
  note m2 = main_reports [OF l2, THEN conjunct1, rule_format, OF e2 p2]
  have r1: "main test_env ?down test_state =
     (\<lparr>stdout = [], stderr = [''error:Connection refused;''], ending = Exit 1\<rparr>, ?sd)"
    unfolding m1 by (simp add: test_defs)
  have r2: "main test_env ?up test_state =
     (\<lparr>stdout = [''url:http://x;finalUrl:http://x;status:_;method:stealthy-fetch;actions:;''],
       stderr = [], ending = Exit 0\<rparr>, ?sp)"
    unfolding m2 by (simp add: test_defs)
  show ?thesis
    by (rule conjI [OF l1 conjI [OF r1 conjI [OF l2 conjI [OF r2 conjI [OF l3 r3]]]]])
qed

end
